theory Spec2Isabelle
  imports Main "HOL-Library.Sublist"
begin

section \<open>Shared data: environments, errors, jobs\<close>

text \<open>
  \<^verbatim>\<open>globals.CocoonEnvironment\<close> and the two error shapes that travel through the
  callbacks: a plain JavaScript \<^verbatim>\<open>Error\<close> (only \<^verbatim>\<open>message\<close>) and a
  \<^verbatim>\<open>BuilderError\<close> (\<^verbatim>\<open>message\<close> and \<^verbatim>\<open>msgPublic\<close>). Both are one record
  whose fields are optional, \<open>None\<close> standing for \<^verbatim>\<open>undefined\<close>.
\<close>

datatype CocoonEnvironment = DEVELOP | TESTING | PRODUCTION

record js_error =
  message :: "string option"
  msgPublic :: "string option"

definition BuilderError :: "string \<Rightarrow> string \<Rightarrow> js_error" where
  "BuilderError m p = \<lparr>message = Some m, msgPublic = Some p\<rparr>"

definition Error :: "string \<Rightarrow> js_error" where
  "Error m = \<lparr>message = Some m, msgPublic = None\<rparr>"

text \<open>JavaScript truthiness of an optional string: \<^verbatim>\<open>undefined\<close> and \<^verbatim>\<open>""\<close> are falsy.\<close>

fun truthy :: "string option \<Rightarrow> bool" where
  "truthy None = False"
| "truthy (Some s) = (s \<noteq> [])"

record ICompilation =
  code :: string
  platform_name :: string
  has_key :: bool
  starttime :: nat

section \<open>The build child: \<^verbatim>\<open>builder_launcher\<close>\<close>

text \<open>
  What the launcher sends on the IPC channel: \<^verbatim>\<open>null\<close>, the pipeline's error object,
  or the launcher's own \<^verbatim>\<open>{error: new Error(..), data: null}\<close>.
\<close>

datatype ipc_message = IpcNull | IpcError js_error | IpcLauncher string

text \<open>
  How \<^verbatim>\<open>builder.start\<close> ends: it calls back (with or without an error), or the
  process dies inside the pipeline (an uncaught exception or a signal) and the
  callback never runs.
\<close>

datatype pipeline_end = Finished "js_error option" | Died

text \<open>
  How the child process ends: \<^verbatim>\<open>process.exit(c)\<close> called by the launcher, or the
  runtime/OS ending it (crash or kill).
\<close>

datatype child_end = ProcessExit int | Aborted

record launcher_run =
  sent :: "ipc_message list"
  ending :: child_end

text \<open>
  The option \<^verbatim>\<open>--json\<close>: absent (or empty), text that \<^verbatim>\<open>JSON.parse\<close> rejects, or a
  job, of which the launcher reads \<^verbatim>\<open>data.platform.name\<close>.
\<close>

datatype json_option = NoJson | BadJson | Job string

text \<open>
  The launcher script, top to bottom. \<open>has_send\<close> is \<^verbatim>\<open>process.send\<close> being defined
  (the child was forked with an IPC channel), \<open>env_opt\<close> is \<^verbatim>\<open>program.env\<close> being set.
  \<^verbatim>\<open>process.exit\<close> ends the script where it is called; an exception of \<^verbatim>\<open>JSON.parse\<close>
  is not caught.
\<close>

definition known_platform :: "string \<Rightarrow> bool" where
  "known_platform p = (p = ''android'' \<or> p = ''ios'' \<or> p = ''osx'' \<or> p = ''windows'' \<or> p = ''ubuntu'')"

definition builder_launcher :: "bool \<Rightarrow> bool \<Rightarrow> json_option \<Rightarrow> pipeline_end \<Rightarrow> launcher_run" where
  "builder_launcher has_send env_opt json pipeline =
     (if \<not> env_opt then
        \<lparr>sent = (if has_send then [IpcLauncher ''Parameter env not available''] else []),
         ending = ProcessExit (- 1)\<rparr>
      else
        (case json of
           NoJson \<Rightarrow>
             \<lparr>sent = (if has_send then [IpcLauncher ''Parameter json not available''] else []),
              ending = ProcessExit (- 1)\<rparr>
         | BadJson \<Rightarrow> \<lparr>sent = [], ending = Aborted\<rparr>
         | Job platform \<Rightarrow>
             (if \<not> known_platform platform then
                (if has_send
                 then \<lparr>sent = [IpcLauncher ''Builder not available''], ending = ProcessExit 0\<rparr>
                 else \<lparr>sent = [], ending = ProcessExit (- 1)\<rparr>)
              else
                (case pipeline of
                   Died \<Rightarrow> \<lparr>sent = [], ending = Aborted\<rparr>
                 | Finished (Some err) \<Rightarrow>
                     (if has_send then \<lparr>sent = [IpcError err], ending = ProcessExit 0\<rparr>
                      else \<lparr>sent = [], ending = ProcessExit (- 1)\<rparr>)
                 | Finished None \<Rightarrow>
                     \<lparr>sent = (if has_send then [IpcNull] else []), ending = ProcessExit 0\<rparr>))))"

text \<open>The launcher got past its own checks and handed the job to a platform builder.\<close>

definition pipeline_started :: "bool \<Rightarrow> json_option \<Rightarrow> bool" where
  "pipeline_started env_opt json =
     (env_opt \<and> (case json of Job platform \<Rightarrow> known_platform platform | _ \<Rightarrow> False))"

section \<open>The Builder service: \<^verbatim>\<open>Compiler.build\<close> and the loop's final callback\<close>

text \<open>Printing numbers and \<^verbatim>\<open>null\<close> the way JavaScript string concatenation does.\<close>

definition digit_char :: "nat \<Rightarrow> char" where
  "digit_char d = ''0123456789'' ! d"

fun decimal :: "nat \<Rightarrow> string" where
  "decimal n = (if 10 \<le> n then decimal (n div 10) else []) @ [digit_char (n mod 10)]"

definition number_text :: "int \<Rightarrow> string" where
  "number_text i = (if 0 \<le> i then decimal (nat i) else CHR ''-'' # decimal (nat (- i)))"

fun js_string_or_null :: "string option \<Rightarrow> string" where
  "js_string_or_null None = ''null''"
| "js_string_or_null (Some s) = s"

fun js_number_or_null :: "int option \<Rightarrow> string" where
  "js_number_or_null None = ''null''"
| "js_number_or_null (Some i) = number_text i"

definition nl :: string where
  "nl = [CHR 0x0A]"

text \<open>\<^verbatim>\<open>log.slice(-10000)\<close>: the last 10000 characters, the whole string when it is shorter.\<close>

definition slice_last :: "nat \<Rightarrow> string \<Rightarrow> string" where
  "slice_last n s = drop (length s - n) s"

text \<open>
  The events the parent registers handlers for on a forked child:
  \<^verbatim>\<open>"message"\<close> (the argument is \<^verbatim>\<open>null\<close> or an error object), \<^verbatim>\<open>"exit"\<close> (code and
  signal, either may be \<^verbatim>\<open>null\<close>) and \<^verbatim>\<open>"error"\<close>.
\<close>

datatype child_event =
    Message "js_error option"
  | Exit "int option" "string option"
  | ChildError js_error

text \<open>
  What one call of \<^verbatim>\<open>build\<close> closes over: its job \<^verbatim>\<open>data\<close>, the latch \<^verbatim>\<open>cbCalled\<close>,
  the signals sent to its child with \<^verbatim>\<open>builder.kill\<close>, and the arguments of its call of
  \<^verbatim>\<open>cb\<close> once that has happened.
\<close>

record build_closure =
  job :: ICompilation
  cbCalled :: bool
  kills :: "string list"
  cb_args :: "(js_error option \<times> ICompilation) option"

text \<open>
  The state of the service that the builds share: the field \<^verbatim>\<open>_watchdogTimer\<close>, one for
  all builds (the time of the next tick of the interval in ms, and the build whose closure
  its callback belongs to; \<open>None\<close> is \<^verbatim>\<open>null\<close> or a cleared timer), and the closures of
  the calls of \<^verbatim>\<open>build\<close> made so far, numbered.
\<close>

record compiler_state =
  watchdogTimer :: "(nat \<times> nat) option"
  builds :: "nat \<rightharpoonup> build_closure"

text \<open>
  What the handlers read from the workspace of a job: \<^verbatim>\<open>cordova.log\<close> (\<open>None\<close> when the
  file does not exist) and \<^verbatim>\<open>stdout.log\<close> (opened for writing by \<^verbatim>\<open>build\<close> itself).
  \<open>redact\<close> is \<^verbatim>\<open>.replace(regex, "")\<close>, which deletes the workspace and home paths.
\<close>

record build_files =
  cordova_log :: "string option"
  stdout_log :: string

definition COMPILER_WATCHDOG_INTERVAL :: nat where
  "COMPILER_WATCHDOG_INTERVAL = 2700000"

text \<open>
  \<^verbatim>\<open>finishBuild\<close> of build \<open>i\<close>: it clears the timer of the service, whichever build
  armed it, and calls \<^verbatim>\<open>cb\<close> of its own build unless the latch is set.
\<close>

definition finishBuild :: "nat \<Rightarrow> js_error option \<Rightarrow> compiler_state \<Rightarrow> compiler_state" where
  "finishBuild i error s =
     (case builds s i of
        None \<Rightarrow> s
      | Some b \<Rightarrow>
          s\<lparr>watchdogTimer := None,
            builds := (builds s)(i \<mapsto>
              (if \<not> cbCalled b then b\<lparr>cbCalled := True, cb_args := Some (error, job b)\<rparr> else b))\<rparr>)"

definition read_cordova_log :: "build_files \<Rightarrow> (string \<Rightarrow> string) \<Rightarrow> string" where
  "read_cordova_log files redact =
     (case cordova_log files of Some c \<Rightarrow> redact c | None \<Rightarrow> ''No log available'')"

definition on_message ::
  "build_files \<Rightarrow> (string \<Rightarrow> string) \<Rightarrow> nat \<Rightarrow> js_error option \<Rightarrow> compiler_state \<Rightarrow> compiler_state" where
  "on_message files redact i error s =
     (case error of
        None \<Rightarrow> finishBuild i None s
      | Some e \<Rightarrow>
          (let log = read_cordova_log files redact;
               pub = (if truthy (msgPublic e)
                      then ''COMPILER ERROR: '' @ nl @ nl @ redact (the (msgPublic e))
                           @ nl @ nl @ ''CORDOVA LOG: '' @ nl @ nl @ slice_last 10000 log
                      else ''CORDOVA LOG: '' @ nl @ nl @ log);
               msg = (if \<not> truthy (message e) then Some (stdout_log files) else message e)
           in finishBuild i (Some \<lparr>message = msg, msgPublic = Some pub\<rparr>) s))"

definition on_exit :: "nat \<Rightarrow> int option \<Rightarrow> string option \<Rightarrow> compiler_state \<Rightarrow> compiler_state" where
  "on_exit i c signal s =
     (if c \<noteq> Some 0
      then finishBuild i
             (Some (Error (''Process exited abnormally ('' @ js_string_or_null signal @ ''): ''
                           @ js_number_or_null c))) s
      else finishBuild i None s)"

definition on_error :: "nat \<Rightarrow> js_error \<Rightarrow> compiler_state \<Rightarrow> compiler_state" where
  "on_error i err s = finishBuild i (Some err) s"

text \<open>The callback of the interval that build \<open>i\<close> armed: it kills the child of that build.\<close>

definition on_watchdog :: "nat \<Rightarrow> compiler_state \<Rightarrow> compiler_state" where
  "on_watchdog i s =
     finishBuild i
       (Some (BuilderError ''Compilation took too long, killing...''
                           ''The compilation exceed the designated time.''))
       (case builds s i of
          None \<Rightarrow> s
        | Some b \<Rightarrow> s\<lparr>builds := (builds s)(i \<mapsto> b\<lparr>kills := kills b @ [''SIGKILL'']\<rparr>)\<rparr>)"

text \<open>
  The call of \<^verbatim>\<open>build\<close> number \<open>i\<close> at time \<open>now\<close>: the child is forked, the handlers
  are registered with a fresh latch, the timer found in the field is cleared and a new
  interval, whose callback belongs to this build, is stored there.
\<close>

definition Compiler_build :: "nat \<Rightarrow> ICompilation \<Rightarrow> nat \<Rightarrow> compiler_state \<Rightarrow> compiler_state" where
  "Compiler_build i data now s =
     s\<lparr>watchdogTimer := Some (now + COMPILER_WATCHDOG_INTERVAL, i),
       builds := (builds s)(i \<mapsto> \<lparr>job = data, cbCalled = False, kills = [], cb_args = None\<rparr>)\<rparr>"

text \<open>
  What happens in the service process: a call of \<^verbatim>\<open>build\<close> (from the loop), or an event
  of the child of some build.
\<close>

datatype service_event = Build nat ICompilation | Child nat child_event

fun handle_child ::
  "(nat \<Rightarrow> build_files) \<Rightarrow> (nat \<Rightarrow> string \<Rightarrow> string) \<Rightarrow> nat \<Rightarrow> child_event \<Rightarrow> compiler_state \<Rightarrow> compiler_state" where
  "handle_child files redact i (Message error) s = on_message (files i) (redact i) i error s"
| "handle_child files redact i (Exit c signal) s = on_exit i c signal s"
| "handle_child files redact i (ChildError err) s = on_error i err s"

fun handle_event ::
  "(nat \<Rightarrow> build_files) \<Rightarrow> (nat \<Rightarrow> string \<Rightarrow> string) \<Rightarrow> nat \<Rightarrow> service_event \<Rightarrow> compiler_state \<Rightarrow> compiler_state" where
  "handle_event files redact now (Build i data) s = Compiler_build i data now s"
| "handle_event files redact now (Child i ev) s = handle_child files redact i ev s"

text \<open>
  \<^verbatim>\<open>setInterval\<close>: while the timer is armed, every tick that is due runs the watchdog
  callback and the timer is rescheduled one interval later. The callback clears the
  timer, which is what ends the repetition.
\<close>

function fire_due :: "nat \<Rightarrow> compiler_state \<Rightarrow> compiler_state" where
  "fire_due now s =
     (case watchdogTimer s of
        None \<Rightarrow> s
      | Some (t, i) \<Rightarrow>
          (if t \<le> now
           then fire_due now
                  (on_watchdog i (s\<lparr>watchdogTimer := Some (t + COMPILER_WATCHDOG_INTERVAL, i)\<rparr>))
           else s))"
  by pat_completeness auto
termination
  by (relation "measure (\<lambda>(now, s). case watchdogTimer s of None \<Rightarrow> 0 | Some (t, i) \<Rightarrow> Suc (Suc now - t))")
     (auto simp: on_watchdog_def finishBuild_def COMPILER_WATCHDOG_INTERVAL_def split: option.splits)

declare fire_due.simps [simp del]

text \<open>The service before its first build: the constructor stores \<^verbatim>\<open>null\<close> in the field.\<close>

definition compiler_idle :: compiler_state where
  "compiler_idle = \<lparr>watchdogTimer = None, builds = Map.empty\<rparr>"

text \<open>
  The service observed up to time \<open>T\<close>: the events come with their times (in ms, in the
  order they happen); before each of them, and at \<open>T\<close>, the ticks that are due fire.
\<close>

fun run_service ::
  "(nat \<Rightarrow> build_files) \<Rightarrow> (nat \<Rightarrow> string \<Rightarrow> string) \<Rightarrow> compiler_state \<Rightarrow> (nat \<times> service_event) list
     \<Rightarrow> nat \<Rightarrow> compiler_state" where
  "run_service files redact s [] T = fire_due T s"
| "run_service files redact s ((t, e) # evs) T =
     (if t \<le> T
      then run_service files redact (handle_event files redact t e (fire_due t s)) evs T
      else fire_due T s)"

text \<open>What a state says about build \<open>i\<close>: the kills of its child and its call of \<^verbatim>\<open>cb\<close>.\<close>

definition kills_of :: "compiler_state \<Rightarrow> nat \<Rightarrow> string list" where
  "kills_of s i = (case builds s i of None \<Rightarrow> [] | Some b \<Rightarrow> kills b)"

definition cb_of :: "compiler_state \<Rightarrow> nat \<Rightarrow> (js_error option \<times> ICompilation) option" where
  "cb_of s i = (case builds s i of None \<Rightarrow> None | Some b \<Rightarrow> cb_args b)"

text \<open>An event that is a call of \<^verbatim>\<open>build\<close> number \<open>i\<close>, and one that is about build \<open>i\<close> at all.\<close>

fun is_build_of :: "nat \<Rightarrow> service_event \<Rightarrow> bool" where
  "is_build_of i (Build j data) = (j = i)"
| "is_build_of i (Child j ev) = False"

fun concerns :: "nat \<Rightarrow> service_event \<Rightarrow> bool" where
  "concerns i (Build j data) = (j = i)"
| "concerns i (Child j ev) = (j = i)"

record INotificationData =
  n_platform :: string
  n_code :: string
  n_starttime :: nat
  msg_internal :: "string option"
  msg_public :: "string option"

text \<open>
  The final callback of the waterfall in \<^verbatim>\<open>Compiler.loop\<close>: the notification it builds
  from \<^verbatim>\<open>(err, data)\<close>, and the notifications it adds to the queue (service mode only).
\<close>

definition notification_of :: "js_error option \<Rightarrow> ICompilation \<Rightarrow> INotificationData" where
  "notification_of err data =
     \<lparr>n_platform = platform_name data, n_code = code data, n_starttime = starttime data,
      msg_internal = (case err of None \<Rightarrow> None | Some e \<Rightarrow> message e),
      msg_public = (case err of None \<Rightarrow> None | Some e \<Rightarrow> msgPublic e)\<rparr>"

definition compiler_loop_callback ::
  "bool \<Rightarrow> (js_error option \<times> ICompilation) option \<Rightarrow> INotificationData list" where
  "compiler_loop_callback service r =
     (case r of
        None \<Rightarrow> []
      | Some (err, data) \<Rightarrow> (if service then [notification_of err data] else []))"

text \<open>The closure of a build that the watchdog has resolved, and of one resolved by an event.\<close>

definition resolved :: "ICompilation \<Rightarrow> string list \<Rightarrow> js_error option \<Rightarrow> build_closure" where
  "resolved d ks err = \<lparr>job = d, cbCalled = True, kills = ks, cb_args = Some (err, d)\<rparr>"

text \<open>The error that the handler of a child's event hands to \<^verbatim>\<open>finishBuild\<close>.\<close>

fun terminal_error :: "build_files \<Rightarrow> (string \<Rightarrow> string) \<Rightarrow> child_event \<Rightarrow> js_error option" where
  "terminal_error files redact (Message None) = None"
| "terminal_error files redact (Message (Some e)) =
     Some \<lparr>message = (if \<not> truthy (message e) then Some (stdout_log files) else message e),
           msgPublic = Some (if truthy (msgPublic e)
                      then ''COMPILER ERROR: '' @ nl @ nl @ redact (the (msgPublic e))
                           @ nl @ nl @ ''CORDOVA LOG: '' @ nl @ nl
                           @ slice_last 10000 (read_cordova_log files redact)
                      else ''CORDOVA LOG: '' @ nl @ nl @ read_cordova_log files redact)\<rparr>"
| "terminal_error files redact (Exit c signal) =
     (if c \<noteq> Some 0
      then Some (Error (''Process exited abnormally ('' @ js_string_or_null signal @ ''): ''
                        @ js_number_or_null c))
      else None)"
| "terminal_error files redact (ChildError err) = Some err"

text \<open>Sample jobs, used where a concrete run is evaluated.\<close>

definition job_A1 :: ICompilation where
  "job_A1 = \<lparr>code = ''A1'', platform_name = ''android'', has_key = False, starttime = 1534848000000\<rparr>"

definition job_B2 :: ICompilation where
  "job_B2 = \<lparr>code = ''B2'', platform_name = ''android'', has_key = False, starttime = 1534848006000\<rparr>"

definition no_logs :: "nat \<Rightarrow> build_files" where
  "no_logs i = \<lparr>cordova_log = None, stdout_log = ''''\<rparr>"

definition failed_logs :: "nat \<Rightarrow> build_files" where
  "failed_logs i = \<lparr>cordova_log = Some ''BUILD FAILED'', stdout_log = ''''\<rparr>"

definition no_redaction :: "nat \<Rightarrow> string \<Rightarrow> string" where
  "no_redaction i text = text"

text \<open>
  Two facts about build \<open>i\<close> that the events of other builds preserve: it is still
  unresolved and its timer, if it is the armed one, does not tick before \<open>deadline\<close>; and
  its child has been killed at most once, and not yet while its timer is armed.
\<close>

definition unresolved :: "nat \<Rightarrow> ICompilation \<Rightarrow> nat \<Rightarrow> compiler_state \<Rightarrow> bool" where
  "unresolved i d deadline s =
     (builds s i = Some \<lparr>job = d, cbCalled = False, kills = [], cb_args = None\<rparr> \<and>
      (case watchdogTimer s of None \<Rightarrow> True | Some (t, j) \<Rightarrow> j \<noteq> i \<or> deadline \<le> t))"

definition killed_once :: "nat \<Rightarrow> compiler_state \<Rightarrow> bool" where
  "killed_once i s =
     (case builds s i of
        None \<Rightarrow> False
      | Some b \<Rightarrow>
          length (kills b) \<le> 1 \<and>
          (case watchdogTimer s of None \<Rightarrow> True | Some (t, j) \<Rightarrow> j \<noteq> i \<or> kills b = []))"

section \<open>The Notifier service: \<^verbatim>\<open>Notifier.loop\<close>, \<^verbatim>\<open>send\<close> and \<^verbatim>\<open>clean\<close>\<close>

definition MAX_RETRIES_NUMBER :: nat where
  "MAX_RETRIES_NUMBER = 20"

record IMongoQueueMessage =
  ack :: string
  payload :: INotificationData
  tries :: nat

text \<open>What \<^verbatim>\<open>this._queue.get\<close> hands to its callback.\<close>

datatype queue_get = GetError | NoMessage | Dequeued IMongoQueueMessage

text \<open>
  What \<^verbatim>\<open>request.post\<close> hands to its callback: a transport error, or a response with
  its status code.
\<close>

datatype post_result = TransportError | Response nat

text \<open>
  The Notifier's actions on the outside world, in the order they are issued:
  queue operations, the HTTP POST (with its URL), the removal of a directory, and the
  flips of the working flag.
\<close>

datatype notifier_effect =
    QueueAck string
  | QueuePing string
  | QueueClean
  | HttpPost string
  | RemoveDir string
  | Working bool

fun envToHost :: "CocoonEnvironment \<Rightarrow> string" where
  "envToHost DEVELOP = ''admin-testing.cocoon.io''"
| "envToHost TESTING = ''admin-testing.cocoon.io''"
| "envToHost PRODUCTION = ''admin.cocoon.io''"

text \<open>
  \<^verbatim>\<open>path.join(globals.PROJECTS_PATH(env), code + "_" + starttime)\<close>; the projects
  path depends on the host (home directory, operating system) and is a parameter.
\<close>

definition workspace_dir :: "string \<Rightarrow> INotificationData \<Rightarrow> string" where
  "workspace_dir projects n = projects @ ''/'' @ n_code n @ ''_'' @ decimal (n_starttime n)"

definition clean :: "CocoonEnvironment \<Rightarrow> string \<Rightarrow> INotificationData \<Rightarrow> notifier_effect list" where
  "clean env projects n = (if env \<noteq> DEVELOP then [RemoveDir (workspace_dir projects n)] else [])"

text \<open>
  \<^verbatim>\<open>send\<close>: the effects it issues and whether it calls back without an error.
  In DEVELOP it calls back at once and posts nothing.
\<close>

definition status_ok :: "post_result \<Rightarrow> bool" where
  "status_ok r = (case r of TransportError \<Rightarrow> False | Response sc \<Rightarrow> 200 \<le> sc \<and> sc < 400)"

definition send :: "CocoonEnvironment \<Rightarrow> INotificationData \<Rightarrow> post_result \<Rightarrow> notifier_effect list \<times> bool" where
  "send env n r =
     (if env = DEVELOP then ([], True)
      else ([HttpPost (''https://'' @ envToHost env @ ''/api/v1/compilation/'' @ n_code n)], status_ok r))"

text \<open>
  One run of \<^verbatim>\<open>loop\<close>. \<open>working\<close> is \<^verbatim>\<open>this._working\<close> on entry, \<open>got\<close> the result
  of the dequeue, \<open>ack_ok\<close> whether \<^verbatim>\<open>queue.ack\<close> calls back without an error, and
  \<open>posted\<close> the outcome of the POST, should one be made.
\<close>

definition Notifier_loop ::
  "CocoonEnvironment \<Rightarrow> string \<Rightarrow> bool \<Rightarrow> queue_get \<Rightarrow> bool \<Rightarrow> post_result \<Rightarrow> notifier_effect list" where
  "Notifier_loop env projects working got ack_ok posted =
     (if working then []
      else Working True #
        (case got of
           GetError \<Rightarrow> [Working False]
         | NoMessage \<Rightarrow> [Working False]
         | Dequeued msg \<Rightarrow>
             (if tries msg > MAX_RETRIES_NUMBER then
                [QueueAck (ack msg), Working False]
                @ (if \<not> ack_ok then [] else clean env projects (payload msg))
              else if n_code (payload msg) = [] then
                Working False # clean env projects (payload msg)
              else
                QueuePing (ack msg) # fst (send env (payload msg) posted)
                @ (if \<not> snd (send env (payload msg) posted) then [Working False]
                   else QueueAck (ack msg) #
                     (if \<not> ack_ok then [Working False]
                      else [Working False, QueueClean] @ clean env projects (payload msg))))))"

text \<open>A failed job's notification as it sits in the queue, for concrete runs.\<close>

definition note_A1 :: INotificationData where
  "note_A1 = \<lparr>n_platform = ''android'', n_code = ''A1'', n_starttime = 1534848000000,
     msg_internal = Some ''gradle exit 1'', msg_public = Some ''Internal compiler error (code 0200)''\<rparr>"

section \<open>The Updater service\<close>

subsection \<open>Paths and the regular expressions of \<^verbatim>\<open>updater.ts\<close>\<close>

text \<open>
  Node's POSIX \<^verbatim>\<open>path.basename\<close> and \<^verbatim>\<open>path.dirname\<close>, following the library's own
  backward scans: trailing slashes are skipped, the last segment is the base name, and
  the directory name is what precedes the slash in front of it (\<^verbatim>\<open>"."\<close> or \<^verbatim>\<open>"/"\<close>
  when there is none; the first character is never scanned).
\<close>

definition is_slash :: "char \<Rightarrow> bool" where
  "is_slash c = (c = CHR ''/'')"

definition path_basename :: "string \<Rightarrow> string" where
  "path_basename p = rev (takeWhile (\<lambda>c. \<not> is_slash c) (dropWhile is_slash (rev p)))"

definition path_dirname :: "string \<Rightarrow> string" where
  "path_dirname p =
     (case p of
        [] \<Rightarrow> ''.''
      | c # cs \<Rightarrow>
          (case dropWhile (\<lambda>c. \<not> is_slash c) (dropWhile is_slash (rev cs)) of
             [] \<Rightarrow> (if is_slash c then ''/'' else ''.'')
           | _ # front \<Rightarrow> (if is_slash c \<and> front = [] then ''//'' else c # rev front)))"

text \<open>
  \<^verbatim>\<open>path.join(a, b)\<close> for a normalised path \<open>a\<close> of several segments (the data path and
  the paths of its folders, which are results of \<^verbatim>\<open>path.join\<close> below the home directory)
  and one non-empty segment \<open>b\<close> without a slash: the result is normalised, so \<^verbatim>\<open>"."\<close>
  gives \<open>a\<close> itself, \<^verbatim>\<open>".."\<close> gives \<open>a\<close> without its last segment, and any other segment
  is appended after a slash.
\<close>

definition path_join :: "string \<Rightarrow> string \<Rightarrow> string" where
  "path_join a b =
     (if b = ''.'' then a
      else if b = ''..'' then rev (tl (dropWhile (\<lambda>c. \<not> is_slash c) (rev a)))
      else a @ ''/'' @ b)"

text \<open>
  The regular expressions of the file are sequences of literals and of \<^verbatim>\<open>[...]+\<close>
  character classes, with one capture group, matched case-insensitively and unanchored.
  \<open>matches\<close> lists what can remain of the input after a sequence of atoms, in the order
  a backtracking matcher tries the alternatives (a greedy \<^verbatim>\<open>+\<close> gives up one
  character at a time); \<open>regex_exec\<close> tries the start positions from left to right and
  returns the text of the group of the first match, as \<^verbatim>\<open>s.match(re)[1]\<close> does.
\<close>

datatype atom = Lit string | OneOrMore "char \<Rightarrow> bool"

definition lower :: "char \<Rightarrow> char" where
  "lower c =
     (case map_of (zip ''ABCDEFGHIJKLMNOPQRSTUVWXYZ'' ''abcdefghijklmnopqrstuvwxyz'') c of
        Some d \<Rightarrow> d
      | None \<Rightarrow> c)"

definition is_alpha :: "char \<Rightarrow> bool" where
  "is_alpha c = (c \<in> set ''abcdefghijklmnopqrstuvwxyzABCDEFGHIJKLMNOPQRSTUVWXYZ'')"

definition is_digit :: "char \<Rightarrow> bool" where
  "is_digit c = (c \<in> set ''0123456789'')"

fun matches :: "atom list \<Rightarrow> string \<Rightarrow> string list" where
  "matches [] s = [s]"
| "matches (Lit l # as) s =
     (if map lower (take (length l) s) = map lower l then matches as (drop (length l) s) else [])"
| "matches (OneOrMore p # as) s =
     concat (map (\<lambda>k. matches as (drop k s)) (rev [1 ..< Suc (length (takeWhile p s))]))"

type_synonym pattern = "atom list \<times> atom list \<times> atom list"

definition match_here :: "pattern \<Rightarrow> string \<Rightarrow> string option" where
  "match_here pat s =
     (case pat of (pre, grp, post) \<Rightarrow>
        (case concat (map (\<lambda>r1. concat (map (\<lambda>r2. map (\<lambda>r3. take (length r1 - length r2) r1)
                                                     (matches post r2))
                                          (matches grp r1)))
                          (matches pre s)) of
           [] \<Rightarrow> None
         | g # _ \<Rightarrow> Some g))"

fun regex_exec :: "pattern \<Rightarrow> string \<Rightarrow> string option" where
  "regex_exec pat [] = match_here pat []"
| "regex_exec pat (c # cs) =
     (case match_here pat (c # cs) of Some g \<Rightarrow> Some g | None \<Rightarrow> regex_exec pat cs)"

text \<open>\<^verbatim>\<open>/([a-zA-Z0-9.\-?]+)\.tar\.bz2/i\<close> (platforms, plugins, sdks in \<^verbatim>\<open>getOutputDir\<close>)\<close>

definition name_pattern :: pattern where
  "name_pattern =
     ([], [OneOrMore (\<lambda>c. is_alpha c \<or> is_digit c \<or> c \<in> set ''.-?'')], [Lit ''.tar.bz2''])"

text \<open>\<^verbatim>\<open>/compiler_cordova_([0-9.?]+)\.tar\.bz2/i\<close>\<close>

definition compiler_pattern :: pattern where
  "compiler_pattern =
     ([Lit ''compiler_cordova_''], [OneOrMore (\<lambda>c. is_digit c \<or> c \<in> set ''.?'')], [Lit ''.tar.bz2''])"

text \<open>\<^verbatim>\<open>/(cordova-[0-9.]+)-[a-zA-Z]+\.tar\.bz2/i\<close>\<close>

definition lib_pattern :: pattern where
  "lib_pattern =
     ([], [Lit ''cordova-'', OneOrMore (\<lambda>c. is_digit c \<or> c = CHR ''.'')],
      [Lit ''-'', OneOrMore is_alpha, Lit ''.tar.bz2''])"

text \<open>\<^verbatim>\<open>/cordova-[0-9.]+-([a-zA-Z]+)\.tar\.bz2/i\<close> (\<^verbatim>\<open>isPlatformFile\<close>, libs)\<close>

definition lib_os_pattern :: pattern where
  "lib_os_pattern =
     ([Lit ''cordova-'', OneOrMore (\<lambda>c. is_digit c \<or> c = CHR ''.''), Lit ''-''],
      [OneOrMore is_alpha], [Lit ''.tar.bz2''])"

text \<open>\<^verbatim>\<open>/[a-zA-Z.\-]+-([a-zA-Z0-9]+)\.tar\.bz2/i\<close> (\<^verbatim>\<open>isPlatformFile\<close>, sdks)\<close>

definition sdk_os_pattern :: pattern where
  "sdk_os_pattern =
     ([OneOrMore (\<lambda>c. is_alpha c \<or> c \<in> set ''.-''), Lit ''-''],
      [OneOrMore (\<lambda>c. is_alpha c \<or> is_digit c)], [Lit ''.tar.bz2''])"

subsection \<open>The manifest, the cache and the helpers of \<^verbatim>\<open>Updater\<close>\<close>

text \<open>
  \<^verbatim>\<open>IS3ContentData\<close>, with the fields the Updater reads. \<open>LastModified\<close> is the ISO-8601
  text of the date: \<^verbatim>\<open>toISOString()\<close> of the remote entry, and the string that
  \<^verbatim>\<open>JSON.stringify\<close> wrote for a persisted one.
\<close>

record IS3ContentData =
  Key :: string
  LastModified :: string

datatype SyncStatus = IGNORE | DOWNLOAD | DELETE

text \<open>
  An exception that leaves a function: a \<^verbatim>\<open>TypeError\<close> (\<^verbatim>\<open>null[1]\<close> after a failed
  \<^verbatim>\<open>match\<close>, the application of something that is not a function), or the error of a
  failed \<^verbatim>\<open>execSync\<close>.
\<close>

datatype thrown = TypeError | ExecError

text \<open>
  The file \<^verbatim>\<open>s3_structure.json\<close>: absent; present but of no use (\<^verbatim>\<open>JSON.parse\<close> throws,
  or gives a falsy or non-iterable value); or holding the list that \<^verbatim>\<open>save\<close> wrote.
\<close>

datatype manifest_file = NoFile | Unreadable | Structure "IS3ContentData list"

text \<open>
  What an output directory holds: nothing, the archive of a key at some date, or what an
  extraction of it that failed has left.
\<close>

datatype dir_content = EmptyDir | Partial string string | Extracted string string

record cache =
  s3_structure :: manifest_file
  dirs :: "string \<rightharpoonup> dir_content"
  ready_lock :: bool

definition CORDOVA_PLATFORMS_FOLDER :: string where "CORDOVA_PLATFORMS_FOLDER = ''platforms''"
definition CORDOVA_COMPILERS_FOLDER :: string where "CORDOVA_COMPILERS_FOLDER = ''compilers''"
definition CORDOVA_PLUGINS_FOLDER :: string where "CORDOVA_PLUGINS_FOLDER = ''plugins''"
definition CORDOVA_LIBS_FOLDER :: string where "CORDOVA_LIBS_FOLDER = ''libs''"
definition SDKS_FOLDER :: string where "SDKS_FOLDER = ''sdks''"

definition tracked_folders :: "string list" where
  "tracked_folders =
     [CORDOVA_PLATFORMS_FOLDER, CORDOVA_COMPILERS_FOLDER, CORDOVA_PLUGINS_FOLDER,
      CORDOVA_LIBS_FOLDER, SDKS_FOLDER]"

text \<open>
  \<^verbatim>\<open>isPlatformFile\<close>; \<open>osType\<close> is \<^verbatim>\<open>os.platform()\<close>. The comparison with the text of
  the group is the case-sensitive \<^verbatim>\<open>!==\<close>.
\<close>

definition isPlatformFile :: "string \<Rightarrow> IS3ContentData \<Rightarrow> thrown + bool" where
  "isPlatformFile osType data =
     (let fileName = path_basename (Key data); dirName = path_dirname (Key data) in
      if dirName \<in> set tracked_folders then
        (if dirName = CORDOVA_LIBS_FOLDER then
           (case regex_exec lib_os_pattern fileName of
              None \<Rightarrow> Inl TypeError
            | Some libOS \<Rightarrow> Inr (osType = libOS))
         else if dirName = SDKS_FOLDER then
           (case regex_exec sdk_os_pattern fileName of
              None \<Rightarrow> Inl TypeError
            | Some libOS \<Rightarrow> Inr (osType = libOS))
         else Inr True)
      else Inr True)"

text \<open>
  \<^verbatim>\<open>getOutputDir\<close>; \<open>data_path\<close> is \<^verbatim>\<open>globals.COMPILER_DATA_PATH(env)\<close>. The five
  \<^verbatim>\<open>if\<close>s test the directory name against five different constants, so at most one
  of them assigns \<^verbatim>\<open>dir\<close>; \<open>None\<close> is the \<^verbatim>\<open>null\<close> it starts with.
\<close>

definition getOutputDir :: "string \<Rightarrow> IS3ContentData \<Rightarrow> thrown + string option" where
  "getOutputDir data_path contentData =
     (let filename = path_basename (Key contentData); dirName = path_dirname (Key contentData) in
      if dirName = CORDOVA_PLATFORMS_FOLDER then
        (case regex_exec name_pattern filename of
           None \<Rightarrow> Inl TypeError
         | Some name \<Rightarrow> Inr (Some (path_join (path_join data_path CORDOVA_PLATFORMS_FOLDER) name)))
      else if dirName = CORDOVA_COMPILERS_FOLDER then
        (case regex_exec compiler_pattern filename of
           None \<Rightarrow> Inl TypeError
         | Some name \<Rightarrow> Inr (Some (path_join (path_join data_path CORDOVA_COMPILERS_FOLDER) name)))
      else if dirName = CORDOVA_PLUGINS_FOLDER then
        (case regex_exec name_pattern filename of
           None \<Rightarrow> Inl TypeError
         | Some name \<Rightarrow> Inr (Some (path_join (path_join data_path CORDOVA_PLUGINS_FOLDER) name)))
      else if dirName = CORDOVA_LIBS_FOLDER then
        (case regex_exec lib_pattern filename of
           None \<Rightarrow> Inl TypeError
         | Some name \<Rightarrow> Inr (Some (path_join (path_join data_path CORDOVA_LIBS_FOLDER) name)))
      else if dirName = SDKS_FOLDER then
        (case regex_exec name_pattern filename of
           None \<Rightarrow> Inl TypeError
         | Some name \<Rightarrow> Inr (Some (path_join (path_join data_path SDKS_FOLDER) name)))
      else Inr None)"

text \<open>
  \<^verbatim>\<open>getSyncStatus\<close>: the loop over the persisted items, which starts from \<^verbatim>\<open>IGNORE\<close>
  and breaks with \<^verbatim>\<open>DOWNLOAD\<close> at an item of the same key whose output directory is
  missing or whose date differs. \<open>present\<close> is \<^verbatim>\<open>fse.existsSync\<close> on the cache
  (\<^verbatim>\<open>false\<close> on \<^verbatim>\<open>null\<close>).
\<close>

fun getSyncStatus ::
  "string \<Rightarrow> (string \<rightharpoonup> dir_content) \<Rightarrow> IS3ContentData list \<Rightarrow> IS3ContentData \<Rightarrow> thrown + SyncStatus" where
  "getSyncStatus data_path present [] contentData = Inr IGNORE"
| "getSyncStatus data_path present (item # items) contentData =
     (if path_dirname (Key contentData) \<in> set tracked_folders \<and> Key item = Key contentData then
        (case getOutputDir data_path contentData of
           Inl e \<Rightarrow> Inl e
         | Inr outDir \<Rightarrow>
             (if (case outDir of None \<Rightarrow> True | Some d \<Rightarrow> present d = None) then Inr DOWNLOAD
              else if LastModified item \<noteq> LastModified contentData then Inr DOWNLOAD
              else getSyncStatus data_path present items contentData))
      else getSyncStatus data_path present items contentData)"

subsection \<open>The directories below the data path\<close>

text \<open>
  \<open>dirs\<close> maps every directory that exists to what was put into it directly; the
  directories nest as their paths do: \<open>below d q\<close> says that \<open>q\<close> lies somewhere inside
  \<open>d\<close>. The file \<^verbatim>\<open>ready.lock\<close> lies in the data directory.
\<close>

definition below :: "string \<Rightarrow> string \<Rightarrow> bool" where
  "below d q = prefix (d @ ''/'') q"

definition lock_path :: "string \<Rightarrow> string" where
  "lock_path dp = path_join dp ''ready.lock''"

text \<open>
  \<^verbatim>\<open>fse.ensureDir\<close>: the directory and the directories above it exist afterwards; what
  exists already is left as it is.
\<close>

definition ensureDir :: "string \<Rightarrow> cache \<Rightarrow> cache" where
  "ensureDir d c =
     c\<lparr>dirs := (\<lambda>q. if (q = d \<or> below q d) \<and> dirs c q = None then Some EmptyDir else dirs c q)\<rparr>"

text \<open>
  \<^verbatim>\<open>fse.emptyDirSync\<close>: the directory exists and is empty afterwards, created with the
  directories above it when it was missing; everything inside it is gone, also
  \<^verbatim>\<open>ready.lock\<close> (\<open>lock\<close> is its path) when it was inside.
\<close>

definition emptyDirSync :: "string \<Rightarrow> string \<Rightarrow> cache \<Rightarrow> cache" where
  "emptyDirSync lock d c =
     c\<lparr>dirs := (\<lambda>q. if q = d then Some EmptyDir
                     else if below d q then None
                     else if below q d \<and> dirs c q = None then Some EmptyDir
                     else dirs c q),
       ready_lock := (ready_lock c \<and> \<not> below d lock)\<rparr>"

text \<open>\<^verbatim>\<open>fse.removeSync\<close>: the directory and everything inside it is gone.\<close>

definition removeSync :: "string \<Rightarrow> string \<Rightarrow> cache \<Rightarrow> cache" where
  "removeSync lock d c =
     c\<lparr>dirs := (\<lambda>q. if q = d \<or> below d q then None else dirs c q),
       ready_lock := (ready_lock c \<and> \<not> below d lock)\<rparr>"

text \<open>
  The extraction of an archive in a directory: what it leaves there is recorded as one
  tag on that directory, \<open>Extracted\<close> when \<^verbatim>\<open>tar\<close> succeeded and \<open>Partial\<close> when it failed.
\<close>

definition extracted_into :: "string \<Rightarrow> dir_content \<Rightarrow> cache \<Rightarrow> cache" where
  "extracted_into d content c = c\<lparr>dirs := (dirs c)(d \<mapsto> content)\<rparr>"

subsection \<open>One iteration of \<^verbatim>\<open>Updater.loop\<close>\<close>

text \<open>
  How the download of a key into \<^verbatim>\<open>sync/\<close> ends: the write stream closes with the
  archive on disk, the write stream emits \<^verbatim>\<open>"error"\<close> (which has a listener), or the
  read stream of \<^verbatim>\<open>getObject\<close> emits \<^verbatim>\<open>"error"\<close>, for which nobody listens: the write
  stream then neither closes nor fails, and the callback of the entry is never called.
\<close>

datatype download_end = Downloaded | WriteStreamError | ReadStreamError

text \<open>
  What the outside world answers during one iteration: the host's \<^verbatim>\<open>os.platform()\<close>
  and data path, whether \<^verbatim>\<open>ensureDir\<close> and \<^verbatim>\<open>emptyDir\<close> succeed, the bucket listing
  (\<open>None\<close> when \<^verbatim>\<open>listObjects\<close> fails), how the download of a key ends, whether its
  extraction succeeds, and whether \<^verbatim>\<open>writeFile\<close> of the manifest succeeds.
\<close>

record updater_world =
  osType :: string
  data_path :: string
  data_folder_ok :: bool
  sync_folder_ok :: bool
  listing :: "IS3ContentData list option"
  download :: "string \<Rightarrow> download_end"
  extract_ok :: "string \<Rightarrow> bool"
  write_ok :: bool

text \<open>The first loop of \<^verbatim>\<open>sync\<close>: the entries that are for this platform.\<close>

fun purgedContents :: "string \<Rightarrow> IS3ContentData list \<Rightarrow> thrown + IS3ContentData list" where
  "purgedContents os [] = Inr []"
| "purgedContents os (dataContent # rest) =
     (case isPlatformFile os dataContent of
        Inl e \<Rightarrow> Inl e
      | Inr keep \<Rightarrow>
          (case purgedContents os rest of
             Inl e \<Rightarrow> Inl e
           | Inr kept \<Rightarrow> Inr (if keep then dataContent # kept else kept)))"

text \<open>
  The status \<^verbatim>\<open>sync\<close> gives an entry: \<^verbatim>\<open>DOWNLOAD\<close> unless the manifest file exists,
  parses to something truthy and \<^verbatim>\<open>getSyncStatus\<close> returns; an exception inside the
  \<^verbatim>\<open>try\<close> leaves \<^verbatim>\<open>DOWNLOAD\<close>.
\<close>

definition syncObject :: "updater_world \<Rightarrow> cache \<Rightarrow> IS3ContentData \<Rightarrow> SyncStatus" where
  "syncObject w c contentData =
     (case s3_structure c of
        NoFile \<Rightarrow> DOWNLOAD
      | Unreadable \<Rightarrow> DOWNLOAD
      | Structure structure \<Rightarrow>
          (case getSyncStatus (data_path w) (dirs c) structure contentData of
             Inl e \<Rightarrow> DOWNLOAD
           | Inr status \<Rightarrow> status))"

text \<open>
  How \<^verbatim>\<open>async.forEachOfSeries\<close> ends: all callbacks without error, one with an error
  (the series stops there), or no callback for an entry at all: an exception thrown in
  the \<^verbatim>\<open>close\<close> handler, or the error of the read stream.
\<close>

datatype sync_end = SyncOk | SyncError string | SyncThrew

text \<open>
  The series over the entries. The state is the cache and the list of keys whose archive
  was fetched into \<^verbatim>\<open>sync/\<close>.
\<close>

fun sync_each ::
  "updater_world \<Rightarrow> IS3ContentData list \<Rightarrow> cache \<Rightarrow> string list \<Rightarrow> sync_end \<times> cache \<times> string list" where
  "sync_each w [] c fetched = (SyncOk, c, fetched)"
| "sync_each w (contentData # rest) c fetched =
     (if syncObject w c contentData = DOWNLOAD then
        (case download w (Key contentData) of
           WriteStreamError \<Rightarrow> (SyncError ''error getting object from s3'', c, fetched)
         | ReadStreamError \<Rightarrow> (SyncThrew, c, fetched)
         | Downloaded \<Rightarrow>
           (case getOutputDir (data_path w) contentData of
              Inl e \<Rightarrow> (SyncThrew, c, fetched @ [Key contentData])
            | Inr None \<Rightarrow> sync_each w rest c (fetched @ [Key contentData])
            | Inr (Some outDir) \<Rightarrow>
                (if \<not> extract_ok w (Key contentData)
                 then (SyncError ''Command failed'',
                       extracted_into outDir (Partial (Key contentData) (LastModified contentData))
                         (emptyDirSync (lock_path (data_path w)) outDir c),
                       fetched @ [Key contentData])
                 else sync_each w rest
                        (extracted_into outDir (Extracted (Key contentData) (LastModified contentData))
                           (emptyDirSync (lock_path (data_path w)) outDir c))
                        (fetched @ [Key contentData]))))
      else sync_each w rest c fetched)"

text \<open>
  \<^verbatim>\<open>purge\<close>: the output directory of every persisted item whose key is not in the new
  listing is removed if it exists. An exception of \<^verbatim>\<open>getOutputDir\<close> is caught outside the loop, so
  it ends the loop.
\<close>

fun purge_items :: "string \<Rightarrow> IS3ContentData list \<Rightarrow> IS3ContentData list \<Rightarrow> cache \<Rightarrow> cache" where
  "purge_items dp remote [] c = c"
| "purge_items dp remote (localItem # rest) c =
     (if Key localItem \<in> Key ` set remote then purge_items dp remote rest c
      else
        (case getOutputDir dp localItem of
           Inl e \<Rightarrow> c
         | Inr None \<Rightarrow> purge_items dp remote rest c
         | Inr (Some file) \<Rightarrow>
             purge_items dp remote rest
               (if dirs c file \<noteq> None then removeSync (lock_path dp) file c else c)))"

definition purge :: "updater_world \<Rightarrow> IS3ContentData list \<Rightarrow> cache \<Rightarrow> cache" where
  "purge w contents c =
     (case s3_structure c of
        Structure structure \<Rightarrow> purge_items (data_path w) contents structure c
      | _ \<Rightarrow> c)"

text \<open>
  \<^verbatim>\<open>save\<close>: the new listing replaces the manifest file; a failing \<^verbatim>\<open>writeFile\<close>
  (taken to leave the file as it was) is the error of the iteration.
\<close>

definition save :: "updater_world \<Rightarrow> IS3ContentData list \<Rightarrow> cache \<Rightarrow> string option \<times> cache" where
  "save w contents c =
     (if write_ok w then (None, c\<lparr>s3_structure := Structure contents\<rparr>)
      else (Some ''write failed'', c))"

text \<open>
  How an iteration ends: the final callback of the waterfall runs to its end, with or
  without an error; it never runs, because an exception escaped a task or a callback was
  never called; or it runs and throws where it opens \<^verbatim>\<open>ready.lock\<close>.
\<close>

datatype iteration_end = Completed "string option" | NoCallback | LockThrew

record updater_run =
  cache_after :: cache
  fetched_keys :: "string list"
  ended :: iteration_end
  lock_touched :: bool

text \<open>
  The final callback: \<^verbatim>\<open>ready.lock\<close> is opened for writing when there is no error and
  \<^verbatim>\<open>status.Contents\<close> is not empty; \<^verbatim>\<open>openSync\<close> creates the file, and throws when the
  data directory does not exist. The callback itself never removes the file.
\<close>

definition final_callback ::
  "string \<Rightarrow> string option \<Rightarrow> IS3ContentData list option \<Rightarrow> cache \<Rightarrow> string list \<Rightarrow> updater_run" where
  "final_callback dp err status c fetched =
     (let wanted = (err = None \<and> (case status of None \<Rightarrow> False | Some contents \<Rightarrow> contents \<noteq> []));
          touch = (wanted \<and> dirs c dp \<noteq> None)
      in \<lparr>cache_after = c\<lparr>ready_lock := ready_lock c \<or> touch\<rparr>, fetched_keys = fetched,
          ended = (if wanted \<and> \<not> touch then LockThrew else Completed err), lock_touched = touch\<rparr>)"

definition Updater_loop :: "updater_world \<Rightarrow> cache \<Rightarrow> updater_run" where
  "Updater_loop w c =
     (if \<not> data_folder_ok w
      then final_callback (data_path w) (Some ''cannot create compiler data folder'') None c []
      else if \<not> sync_folder_ok w
      then final_callback (data_path w) (Some ''cannot create sync temp folder'') None
             (ensureDir (data_path w) c) []
      else
        (case listing w of
           None \<Rightarrow> final_callback (data_path w) (Some ''listObjects failed'') None
                     (ensureDir (data_path w) c) []
         | Some contents \<Rightarrow>
             (case purgedContents (osType w) contents of
                Inl e \<Rightarrow> \<lparr>cache_after = ensureDir (data_path w) c, fetched_keys = [],
                          ended = NoCallback, lock_touched = False\<rparr>
              | Inr relevant \<Rightarrow>
                  (case sync_each w relevant (ensureDir (data_path w) c) [] of
                     (SyncThrew, c1, fetched) \<Rightarrow>
                       \<lparr>cache_after = c1, fetched_keys = fetched, ended = NoCallback, lock_touched = False\<rparr>
                   | (SyncError e, c1, fetched) \<Rightarrow>
                       final_callback (data_path w) (Some e) (Some relevant) c1 fetched
                   | (SyncOk, c1, fetched) \<Rightarrow>
                       (case save w relevant (purge w relevant c1) of
                          (err, c2) \<Rightarrow> final_callback (data_path w) err (Some relevant) c2 fetched)))))"

text \<open>A host and a bucket for concrete runs: Linux, everything succeeds.\<close>

definition linux_world :: "IS3ContentData list \<Rightarrow> updater_world" where
  "linux_world remote =
     \<lparr>osType = ''linux'', data_path = ''/home/u/opt/cocoon_compiler/workspace/testing/data'',
      data_folder_ok = True, sync_folder_ok = True, listing = Some remote,
      download = (\<lambda>k. Downloaded), extract_ok = (\<lambda>k. True), write_ok = True\<rparr>"

definition plugin_X :: IS3ContentData where
  "plugin_X = \<lparr>Key = ''plugins/X.tar.bz2'', LastModified = ''2018-08-21T10:00:00.000Z''\<rparr>"

definition plugin_Y :: IS3ContentData where
  "plugin_Y = \<lparr>Key = ''plugins/Y.tar.bz2'', LastModified = ''2018-05-03T09:00:00.000Z''\<rparr>"

text \<open>A cache that mirrors a bucket holding only \<^verbatim>\<open>plugins/Y.tar.bz2\<close>.\<close>

definition cache_Y :: cache where
  "cache_Y =
     \<lparr>s3_structure = Structure [plugin_Y],
      dirs = [''/home/u/opt/cocoon_compiler/workspace/testing/data'' \<mapsto> EmptyDir,
              ''/home/u/opt/cocoon_compiler/workspace/testing/data/plugins'' \<mapsto> EmptyDir,
              ''/home/u/opt/cocoon_compiler/workspace/testing/data/plugins/Y''
                \<mapsto> Extracted ''plugins/Y.tar.bz2'' ''2018-05-03T09:00:00.000Z''],
      ready_lock = True\<rparr>"






text \<open>An archive whose name is \<^verbatim>\<open>".."\<close>, and a world in which its extraction fails.\<close>

definition plugin_dotdot :: IS3ContentData where
  "plugin_dotdot = \<lparr>Key = ''plugins/...tar.bz2'', LastModified = ''2018-08-21T10:00:00.000Z''\<rparr>"

definition broken_archive_world :: "IS3ContentData list \<Rightarrow> updater_world" where
  "broken_archive_world remote = (linux_world remote)\<lparr>extract_ok := (\<lambda>k. False)\<rparr>"

section \<open>The platform builders\<close>

text \<open>
  \<^verbatim>\<open>IBuildOptionsOpts\<close> with the fields the two builders set, and the tasks they push
  for \<^verbatim>\<open>async.waterfall\<close>. \<open>Compile\<close> is \<^verbatim>\<open>async.apply(this.compile.bind(this), options)\<close>;
  \<^verbatim>\<open>Builder.compile\<close> changes into the project directory and calls the native build
  (\<^verbatim>\<open>cordova.build(options)\<close>); it is the only place where that is called.
\<close>

record IBuildOptionsOpts =
  release :: bool
  device :: bool
  archs :: "string option"
  buildConfig :: "string option"

datatype task =
    CreateCertsFolder
  | Keystore
  | Pfx
  | RemovePfx
  | InstallPfx
  | BuildJson
  | Compile IBuildOptionsOpts

text \<open>
  \<^verbatim>\<open>async.waterfall(tasks, ..)\<close>: the tasks run in order and the first one that calls
  back with an error ends the series. \<open>ok i\<close> says whether the task at position \<open>i\<close>
  succeeds. The result is the list of options the native build was invoked with, and the
  error flag handed to the final callback.
\<close>

fun waterfall :: "(nat \<Rightarrow> bool) \<Rightarrow> nat \<Rightarrow> task list \<Rightarrow> IBuildOptionsOpts list \<times> bool" where
  "waterfall ok i [] = ([], True)"
| "waterfall ok i (t # ts) =
     (let invoked = (case t of Compile opts \<Rightarrow> [opts] | _ \<Rightarrow> []) in
      if ok i then (invoked @ fst (waterfall ok (Suc i) ts), snd (waterfall ok (Suc i) ts))
      else (invoked, False))"

text \<open>
  How a \<^verbatim>\<open>build\<close> method ends: an exception leaves it before any task is scheduled, it
  calls back with its own error, or it runs its tasks (the native builds invoked, and
  whether the series succeeded).
\<close>

datatype build_end =
    Throws thrown
  | Rejects js_error
  | Ran "IBuildOptionsOpts list" bool

subsection \<open>\<^verbatim>\<open>WindowsBuilder.build\<close>\<close>

text \<open>
  The name check reads \<^verbatim>\<open>cfg.name().length() > 40\<close>. \<^verbatim>\<open>cfg.name()\<close> is the project
  name, a string (the Apple builders concatenate it into paths), and \<^verbatim>\<open>length\<close> of a
  string is a number-valued property, not a method: the call expression evaluates
  \<^verbatim>\<open>cfg.name().length\<close> to that number and then applies it, and applying a number raises
  a \<^verbatim>\<open>TypeError\<close> (\<^verbatim>\<open>cfg\<close> has type \<^verbatim>\<open>any\<close>, so the compiler does not object).
  \<open>js_call_number\<close> is that application; the comparison and everything after it come
  behind it.
\<close>

definition js_call_number :: "nat \<Rightarrow> thrown + nat" where
  "js_call_number n = Inl TypeError"

definition windows_options :: "string \<Rightarrow> bool \<Rightarrow> IBuildOptionsOpts" where
  "windows_options project key =
     \<lparr>release = key, device = True, archs = Some ''x86 x64 arm'',
      buildConfig = (if key then Some (path_join project ''build.json'') else None)\<rparr>"

definition WindowsBuilder_tasks :: "string \<Rightarrow> bool \<Rightarrow> task list" where
  "WindowsBuilder_tasks project key =
     (if key then [CreateCertsFolder, Pfx, RemovePfx, InstallPfx, BuildJson] else [])
     @ [Compile (windows_options project key)]
     @ (if key then [RemovePfx] else [])"

definition WindowsBuilder_build :: "string \<Rightarrow> string \<Rightarrow> bool \<Rightarrow> (nat \<Rightarrow> bool) \<Rightarrow> build_end" where
  "WindowsBuilder_build cfg_name project key ok =
     (case js_call_number (length cfg_name) of
        Inl e \<Rightarrow> Throws e
      | Inr len \<Rightarrow>
          (if len > 40 then
             Rejects (BuilderError
               ''msbuild.exe doesn't accept application names longer than 40 characters. Cancelling compilation...''
               ''Windows compilations can't have names longer than 40 characters. Choose a shorter name.'')
           else
             (case waterfall ok 0 (WindowsBuilder_tasks project key) of
                (invoked, success) \<Rightarrow> Ran invoked success)))"

subsection \<open>\<^verbatim>\<open>AndroidBuilder.build\<close> and \<^verbatim>\<open>pack\<close>\<close>

definition android_options :: "string \<Rightarrow> bool \<Rightarrow> bool \<Rightarrow> IBuildOptionsOpts" where
  "android_options project key rel =
     \<lparr>release = rel, device = True, archs = None,
      buildConfig = (if key then Some (path_join project ''build.json'') else None)\<rparr>"

definition AndroidBuilder_tasks :: "string \<Rightarrow> bool \<Rightarrow> task list" where
  "AndroidBuilder_tasks project key =
     (if key then [CreateCertsFolder, Keystore, BuildJson] else [])
     @ (if \<not> key
        then [Compile (android_options project key False), Compile (android_options project key True)]
        else [Compile (android_options project key True)])"

text \<open>
  \<open>licenses_ok\<close>: the \<^verbatim>\<open>execSync\<close> of \<^verbatim>\<open>sdkmanager --licenses\<close> returns; it throws
  when the command fails.
\<close>

definition AndroidBuilder_build :: "bool \<Rightarrow> string \<Rightarrow> bool \<Rightarrow> (nat \<Rightarrow> bool) \<Rightarrow> build_end" where
  "AndroidBuilder_build licenses_ok project key ok =
     (if \<not> licenses_ok then Throws ExecError
      else
        (case waterfall ok 0 (AndroidBuilder_tasks project key) of
           (invoked, success) \<Rightarrow> Ran invoked success))"

text \<open>
  The two filters of \<^verbatim>\<open>pack\<close>,
  \<^verbatim>\<open>/\/(android|app)(-armv7|-x86)?-release\.apk$/\<close> and
  \<^verbatim>\<open>/\/(android|app)(-armv7|-x86)?-(debug|release)(-unsigned)?\.apk$/\<close>: each describes
  finitely many endings of the path, listed here (\<open>suffix e p\<close>: the path \<open>p\<close> ends
  with \<open>e\<close>).
\<close>

definition apk_endings :: "bool \<Rightarrow> string list" where
  "apk_endings key =
     concat (map (\<lambda>base. concat (map (\<lambda>arch. concat (map (\<lambda>kind. map (\<lambda>uns.
        ''/'' @ base @ arch @ ''-'' @ kind @ uns @ ''.apk'')
        (if key then [''''] else ['''', ''-unsigned'']))
        (if key then [''release''] else [''debug'', ''release''])))
        ['''', ''-armv7'', ''-x86'']))
        [''android'', ''app''])"

definition filterFn :: "bool \<Rightarrow> string \<Rightarrow> bool" where
  "filterFn key p = list_ex (\<lambda>ending. suffix ending p) (apk_endings key)"

text \<open>
  \<^verbatim>\<open>pack\<close>: the files under the APK output directory that pass the filter go to
  \<^verbatim>\<open>createOutputZip\<close>. When there is none the callback gets the error first (there is
  no \<^verbatim>\<open>return\<close>, so the zip is still written and the callback called again).
\<close>

record pack_run =
  zipped :: "string list"
  callbacks :: "js_error option list"

definition AndroidBuilder_pack :: "bool \<Rightarrow> string list \<Rightarrow> pack_run" where
  "AndroidBuilder_pack key found =
     (let files = filter (filterFn key) found in
      \<lparr>zipped = files,
       callbacks = (if files = []
                    then [Some (BuilderError ''No matching APKs found for packaging''
                                             ''Internal compiler error (code 0200)'')]
                    else []) @ [None]\<rparr>)"

subsection \<open>\<^verbatim>\<open>Builder.cleanUp\<close>, \<^verbatim>\<open>removeTmpFiles\<close> and the end of \<^verbatim>\<open>Builder.start\<close>\<close>

text \<open>
  \<^verbatim>\<open>diskUsage.check\<close> gives an error or the available and total bytes of a file system.
  The percentages are computed in exact arithmetic, as the floating-point expression
  \<^verbatim>\<open>total * 25 / 100\<close> is for any disk below 2^53 / 25 bytes.
\<close>

record disk_space =
  available :: nat
  total :: nat

datatype disk_check = CheckError | Space disk_space

definition low_space :: "disk_space \<Rightarrow> disk_space \<Rightarrow> bool" where
  "low_space rootSpc homeSpc =
     (available rootSpc < 1 * 1024 ^ 3 \<or> available rootSpc * 100 < total rootSpc * 25 \<or>
      available homeSpc < 10 * 1024 ^ 3 \<or> available homeSpc * 100 < total homeSpc * 25)"

text \<open>
  \<^verbatim>\<open>removeTmpFiles\<close>: \<open>names\<close> is \<^verbatim>\<open>readdirSync(directory)\<close>; \<open>stat\<close> is
  \<^verbatim>\<open>statSync(path.join(os.tmpdir(), value))\<close>, \<open>None\<close> when it throws; the result is the
  list of entries removed. \<^verbatim>\<open>value.indexOf("npm-") === 0\<close> is \<open>prefix ''npm-'' value\<close>.
  (The Android builder also stops the Gradle daemons and removes the Gradle cache, on
  top of what the base class does here.)
\<close>

record tmp_stat =
  isDirectory :: bool
  uid :: nat

definition removeTmpFiles :: "bool \<Rightarrow> nat \<Rightarrow> string list \<Rightarrow> (string \<rightharpoonup> tmp_stat) \<Rightarrow> string list" where
  "removeTmpFiles win32 getuid names stat =
     filter (\<lambda>value.
        (case stat value of
           None \<Rightarrow> False
         | Some st \<Rightarrow>
             isDirectory st \<and> (prefix ''npm-'' value \<or> prefix ''git'' value)
             \<and> (win32 \<or> uid st = getuid)))
       names"

datatype cleanup_effect = RemovedTmp "string list" | RemovedNpmCache

definition cleanUp ::
  "disk_check \<Rightarrow> disk_check \<Rightarrow> bool \<Rightarrow> nat \<Rightarrow> string list \<Rightarrow> (string \<rightharpoonup> tmp_stat) \<Rightarrow> cleanup_effect list" where
  "cleanUp root_check home_check win32 getuid names stat =
     (case root_check of
        CheckError \<Rightarrow> []
      | Space rootSpc \<Rightarrow>
          (case home_check of
             CheckError \<Rightarrow> []
           | Space homeSpc \<Rightarrow>
               (if low_space rootSpc homeSpc
                then [RemovedTmp (removeTmpFiles win32 getuid names stat), RemovedNpmCache]
                else [])))"

text \<open>
  The final callback of the waterfall in \<^verbatim>\<open>Builder.start\<close>, which runs in the build
  child when the five stages have ended (with or without error): the only caller of
  \<^verbatim>\<open>cleanUp\<close>, and not in DEVELOP.
\<close>

definition start_callback ::
  "CocoonEnvironment \<Rightarrow> disk_check \<Rightarrow> disk_check \<Rightarrow> bool \<Rightarrow> nat \<Rightarrow> string list \<Rightarrow> (string \<rightharpoonup> tmp_stat)
     \<Rightarrow> cleanup_effect list" where
  "start_callback env root_check home_check win32 getuid names stat =
     (if env \<noteq> DEVELOP then cleanUp root_check home_check win32 getuid names stat else [])"

text \<open>A temporary directory for concrete runs: entries of the user 1000 and of root.\<close>

definition tmp_names :: "string list" where
  "tmp_names = [''npm-1234'', ''git-abc'', ''npm-file'', ''npm-root'', ''other'']"

definition tmp_stats :: "string \<rightharpoonup> tmp_stat" where
  "tmp_stats =
     [''npm-1234'' \<mapsto> \<lparr>isDirectory = True, uid = 1000\<rparr>,
      ''git-abc'' \<mapsto> \<lparr>isDirectory = True, uid = 1000\<rparr>,
      ''npm-file'' \<mapsto> \<lparr>isDirectory = False, uid = 1000\<rparr>,
      ''npm-root'' \<mapsto> \<lparr>isDirectory = True, uid = 0\<rparr>,
      ''other'' \<mapsto> \<lparr>isDirectory = True, uid = 1000\<rparr>]"

text \<open>
  Where the clean-up sits in an iteration of the Builder service: \<^verbatim>\<open>Compiler.loop\<close>
  returns at once without \<^verbatim>\<open>ready.lock\<close> or while working; otherwise it fetches a job
  and, only if \<^verbatim>\<open>init\<close> and \<^verbatim>\<open>fetch\<close> succeed (\<open>job_fetched\<close>), forks the build child,
  whose launcher hands the job to \<^verbatim>\<open>Builder.start\<close>; the clean-up runs in that child when
  the pipeline has ended (\<open>Died\<close>: it never did). The service process itself never checks
  the disks.
\<close>

definition Compiler_loop_cleanup ::
  "bool \<Rightarrow> bool \<Rightarrow> bool \<Rightarrow> pipeline_end \<Rightarrow> CocoonEnvironment \<Rightarrow> disk_check \<Rightarrow> disk_check \<Rightarrow> bool \<Rightarrow> nat
     \<Rightarrow> string list \<Rightarrow> (string \<rightharpoonup> tmp_stat) \<Rightarrow> cleanup_effect list" where
  "Compiler_loop_cleanup ready working job_fetched pipeline env root_check home_check win32 getuid names stat =
     (if \<not> ready then []
      else if working then []
      else if \<not> job_fetched then []
      else
        (case pipeline of
           Died \<Rightarrow> []
         | Finished err \<Rightarrow> start_callback env root_check home_check win32 getuid names stat))"

text \<open>Disks for concrete runs: 100 GiB each, the root one full, the home one with 50 GiB free.\<close>

definition full_root :: disk_space where
  "full_root = \<lparr>available = 0, total = 100 * 1024 ^ 3\<rparr>"

definition roomy_home :: disk_space where
  "roomy_home = \<lparr>available = 50 * 1024 ^ 3, total = 100 * 1024 ^ 3\<rparr>"

section \<open>Theorems\<close>

subsection \<open>The watchdog and the once-latch\<close>

lemma fire_due_cleared: "watchdogTimer s = None \<Longrightarrow> fire_due now s = s"
  by (subst fire_due.simps) simp

lemma fire_due_not_yet: "watchdogTimer s = Some (t, i) \<Longrightarrow> now < t \<Longrightarrow> fire_due now s = s"
  by (subst fire_due.simps) simp

lemma finishBuild_other: "j \<noteq> i \<Longrightarrow> builds (finishBuild j e s) i = builds s i"
  by (simp add: finishBuild_def split: option.splits)

lemma finishBuild_timer:
  "watchdogTimer (finishBuild j e s) = (if builds s j = None then watchdogTimer s else None)"
  by (simp add: finishBuild_def split: option.splits)

lemma finishBuild_own:
  "builds s i = Some b \<Longrightarrow>
   builds (finishBuild i e s) i =
     Some (if \<not> cbCalled b then b\<lparr>cbCalled := True, cb_args := Some (e, job b)\<rparr> else b)"
  by (simp add: finishBuild_def)

lemma handle_child_finish:
  "handle_child f r i ev s = finishBuild i (terminal_error (f i) (r i) ev) s"
proof (cases ev)
  case (Message error)
  then show ?thesis by (cases error) (simp_all add: on_message_def Let_def)
qed (simp_all add: on_exit_def on_error_def)

lemma on_watchdog_other: "j \<noteq> i \<Longrightarrow> builds (on_watchdog j s) i = builds s i"
  by (simp add: on_watchdog_def finishBuild_def split: option.splits)

lemma on_watchdog_timer:
  "watchdogTimer (on_watchdog j s) = (if builds s j = None then watchdogTimer s else None)"
  by (simp add: on_watchdog_def finishBuild_def split: option.splits)

lemma on_watchdog_own:
  "builds s i = Some b \<Longrightarrow>
   builds (on_watchdog i s) i =
     Some (if \<not> cbCalled b
           then b\<lparr>kills := kills b @ [''SIGKILL''], cbCalled := True,
                  cb_args := Some (Some (BuilderError ''Compilation took too long, killing...''
                                           ''The compilation exceed the designated time.''), job b)\<rparr>
           else b\<lparr>kills := kills b @ [''SIGKILL'']\<rparr>)"
  by (simp add: on_watchdog_def finishBuild_def)

lemma fire_due_frame:
  assumes "case watchdogTimer s of None \<Rightarrow> True | Some (t, j) \<Rightarrow> j \<noteq> i \<or> now < t"
  shows "builds (fire_due now s) i = builds s i \<and>
         (case watchdogTimer (fire_due now s) of None \<Rightarrow> True
          | Some (t, j) \<Rightarrow> j \<noteq> i \<or> watchdogTimer s = Some (t, j))"
  using assms
proof (induction now s rule: fire_due.induct)
  case (1 now s)
  show ?case
  proof (cases "watchdogTimer s")
    case None
    then show ?thesis by (simp add: fire_due_cleared)
  next
    case (Some p)
    obtain t j where p: "p = (t, j)" by (cases p)
    show ?thesis
    proof (cases "t \<le> now")
      case False
      then show ?thesis using Some p by (simp add: fire_due_not_yet)
    next
      case True
      with "1.prems" Some p have ji: "j \<noteq> i" by auto
      let ?s1 = "on_watchdog j (s\<lparr>watchdogTimer := Some (t + COMPILER_WATCHDOG_INTERVAL, j)\<rparr>)"
      have pre1: "case watchdogTimer ?s1 of None \<Rightarrow> True | Some (t, j) \<Rightarrow> j \<noteq> i \<or> now < t"
        using ji by (simp add: on_watchdog_timer)
      have ih: "builds (fire_due now ?s1) i = builds ?s1 i \<and>
         (case watchdogTimer (fire_due now ?s1) of None \<Rightarrow> True
          | Some (t, j) \<Rightarrow> j \<noteq> i \<or> watchdogTimer ?s1 = Some (t, j))"
        using "1.IH" [OF Some p [symmetric] True pre1] .
      have unfold: "fire_due now s = fire_due now ?s1"
        using Some p True by (subst fire_due.simps) simp
      have b1: "builds ?s1 i = builds s i"
        using ji by (simp add: on_watchdog_other)
      have t1: "\<And>t'. watchdogTimer ?s1 \<noteq> Some (t', i)"
        using ji by (simp add: on_watchdog_timer)
      show ?thesis
        using ih b1 t1 by (auto simp: unfold split: option.splits)
    qed
  qed
qed

lemma handle_event_other:
  "\<not> concerns i e \<Longrightarrow> builds (handle_event f r now e s) i = builds s i"
  by (cases e) (simp_all add: Compiler_build_def handle_child_finish finishBuild_other)

lemma handle_event_timer_other:
  "\<not> is_build_of i e \<Longrightarrow>
   (case watchdogTimer (handle_event f r now e s) of None \<Rightarrow> True
    | Some (t, j) \<Rightarrow> j \<noteq> i \<or> watchdogTimer s = Some (t, j))"
  by (cases e) (auto simp: Compiler_build_def handle_child_finish finishBuild_timer split: option.splits)

lemma handle_event_latched:
  assumes "builds s i = Some b" and "cbCalled b" and "\<not> is_build_of i e"
  shows "builds (handle_event f r now e s) i = Some b"
proof (cases "concerns i e")
  case False
  then show ?thesis using assms(1) by (simp add: handle_event_other)
next
  case True
  with assms(3) obtain ev where "e = Child i ev" by (cases e) auto
  then show ?thesis using assms(1,2) by (simp add: handle_child_finish finishBuild_own)
qed

lemma run_service_latched:
  assumes "builds s i = Some b" and "cbCalled b"
    and "case watchdogTimer s of None \<Rightarrow> True | Some (t, j) \<Rightarrow> j \<noteq> i"
    and "\<forall>(t, e) \<in> set evs. \<not> is_build_of i e"
  shows "builds (run_service f r s evs T) i = Some b"
  using assms
proof (induction evs arbitrary: s)
  case Nil
  have "case watchdogTimer s of None \<Rightarrow> True | Some (t, j) \<Rightarrow> j \<noteq> i \<or> T < t"
    using Nil.prems(3) by (auto split: option.splits)
  from fire_due_frame [OF this] show ?case using Nil.prems(1) by simp
next
  case (Cons p evs)
  obtain t e where p: "p = (t, e)" by (cases p)
  have nb: "\<not> is_build_of i e" using Cons.prems(4) p by auto
  have fr: "\<And>now. builds (fire_due now s) i = builds s i \<and>
         (case watchdogTimer (fire_due now s) of None \<Rightarrow> True
          | Some (t, j) \<Rightarrow> j \<noteq> i \<or> watchdogTimer s = Some (t, j))"
  proof -
    fix now
    have "case watchdogTimer s of None \<Rightarrow> True | Some (t, j) \<Rightarrow> j \<noteq> i \<or> now < t"
      using Cons.prems(3) by (auto split: option.splits)
    from fire_due_frame [OF this] show "builds (fire_due now s) i = builds s i \<and>
         (case watchdogTimer (fire_due now s) of None \<Rightarrow> True
          | Some (t, j) \<Rightarrow> j \<noteq> i \<or> watchdogTimer s = Some (t, j))" .
  qed
  show ?case
  proof (cases "t \<le> T")
    case False
    then show ?thesis using fr [of T] Cons.prems(1) p by simp
  next
    case True
    let ?s1 = "fire_due t s"
    let ?s2 = "handle_event f r t e ?s1"
    have b1: "builds ?s1 i = Some b" using fr [of t] Cons.prems(1) by simp
    have t1: "case watchdogTimer ?s1 of None \<Rightarrow> True | Some (t, j) \<Rightarrow> j \<noteq> i"
      using fr [of t] Cons.prems(3) by (auto split: option.splits)
    have b2: "builds ?s2 i = Some b"
      using handle_event_latched [OF b1 Cons.prems(2) nb] .
    have t2: "case watchdogTimer ?s2 of None \<Rightarrow> True | Some (t, j) \<Rightarrow> j \<noteq> i"
      using handle_event_timer_other [OF nb, where f = f and r = r and now = t and s = "?s1"] t1 by (auto split: option.splits)
    have rest: "\<forall>(t, e) \<in> set evs. \<not> is_build_of i e" using Cons.prems(4) by auto
    show ?thesis
      using Cons.IH [OF b2 Cons.prems(2) t2 rest] True p by simp
  qed
qed

lemma fire_due_own:
  assumes "builds s i = Some b" and "watchdogTimer s = Some (t, i)" and "t \<le> now"
  shows "fire_due now s = on_watchdog i (s\<lparr>watchdogTimer := Some (t + COMPILER_WATCHDOG_INTERVAL, i)\<rparr>)"
proof -
  have "watchdogTimer (on_watchdog i (s\<lparr>watchdogTimer := Some (t + COMPILER_WATCHDOG_INTERVAL, i)\<rparr>)) = None"
    using assms(1) by (simp add: on_watchdog_timer)
  then show ?thesis
    using assms(2,3) by (subst fire_due.simps) (simp add: fire_due_cleared)
qed

lemma fire_due_after_build:
  assumes "t0 + COMPILER_WATCHDOG_INTERVAL \<le> now"
  shows "builds (fire_due now (Compiler_build i d t0 s)) i =
           Some (resolved d [''SIGKILL''] (Some (BuilderError ''Compilation took too long, killing...''
                                                   ''The compilation exceed the designated time.'')))"
    and "watchdogTimer (fire_due now (Compiler_build i d t0 s)) = None"
proof -
  let ?s0 = "Compiler_build i d t0 s"
  have b: "builds ?s0 i = Some \<lparr>job = d, cbCalled = False, kills = [], cb_args = None\<rparr>"
    and t: "watchdogTimer ?s0 = Some (t0 + COMPILER_WATCHDOG_INTERVAL, i)"
    by (simp_all add: Compiler_build_def)
  note eq = fire_due_own [OF b t assms]
  show "builds (fire_due now ?s0) i =
           Some (resolved d [''SIGKILL''] (Some (BuilderError ''Compilation took too long, killing...''
                                                   ''The compilation exceed the designated time.'')))"
    using b by (simp add: eq on_watchdog_own resolved_def)
  show "watchdogTimer (fire_due now ?s0) = None"
    using b by (simp add: eq on_watchdog_timer)
qed

lemma run_service_watchdog:
  assumes "\<forall>(t, e) \<in> set evs. t0 + COMPILER_WATCHDOG_INTERVAL < t \<and> \<not> is_build_of i e"
    and "t0 + COMPILER_WATCHDOG_INTERVAL \<le> T"
  shows "builds (run_service f r (Compiler_build i d t0 s) evs T) i =
           Some (resolved d [''SIGKILL''] (Some (BuilderError ''Compilation took too long, killing...''
                                                   ''The compilation exceed the designated time.'')))"
proof (cases evs)
  case Nil
  then show ?thesis using fire_due_after_build(1) [OF assms(2)] by simp
next
  case (Cons p rest)
  obtain t e where p: "p = (t, e)" by (cases p)
  let ?s0 = "Compiler_build i d t0 s"
  let ?b = "resolved d [''SIGKILL''] (Some (BuilderError ''Compilation took too long, killing...''
                                                   ''The compilation exceed the designated time.''))"
  show ?thesis
  proof (cases "t \<le> T")
    case False
    then show ?thesis using Cons p fire_due_after_build(1) [OF assms(2)] by simp
  next
    case True
    have late: "t0 + COMPILER_WATCHDOG_INTERVAL \<le> t" using assms(1) Cons p by auto
    let ?k = "fire_due t ?s0"
    have bk: "builds ?k i = Some ?b" and tk: "watchdogTimer ?k = None"
      using fire_due_after_build [OF late] by auto
    have nb: "\<forall>(t, e) \<in> set evs. \<not> is_build_of i e" using assms(1) by auto
    have "builds (run_service f r ?k evs T) i = Some ?b"
      by (rule run_service_latched [OF bk _ _ nb]) (simp_all add: resolved_def tk)
    moreover have "run_service f r ?k evs T = run_service f r ?s0 evs T"
      using Cons p True tk by (simp add: fire_due_cleared)
    ultimately show ?thesis by simp
  qed
qed

lemma killed_once_fire_due: "killed_once i s \<Longrightarrow> killed_once i (fire_due now s)"
proof (induction now s rule: fire_due.induct)
  case (1 now s)
  show ?case
  proof (cases "watchdogTimer s")
    case None
    then show ?thesis using "1.prems" by (simp add: fire_due_cleared)
  next
    case (Some p)
    obtain t j where p: "p = (t, j)" by (cases p)
    show ?thesis
    proof (cases "t \<le> now")
      case False
      then show ?thesis using Some p "1.prems" by (simp add: fire_due_not_yet)
    next
      case True
      let ?s1 = "on_watchdog j (s\<lparr>watchdogTimer := Some (t + COMPILER_WATCHDOG_INTERVAL, j)\<rparr>)"
      have unfold: "fire_due now s = fire_due now ?s1"
        using Some p True by (subst fire_due.simps) simp
      have "killed_once i ?s1"
      proof (cases "j = i")
        case True
        then show ?thesis using "1.prems" Some p
          by (auto simp: killed_once_def on_watchdog_own on_watchdog_timer split: option.splits)
      next
        case False
        then show ?thesis using "1.prems" Some p
          by (auto simp: killed_once_def on_watchdog_other on_watchdog_timer split: option.splits)
      qed
      from "1.IH" [OF Some p [symmetric] True this] show ?thesis by (simp add: unfold)
    qed
  qed
qed

lemma killed_once_handle_event:
  assumes "killed_once i s" and "\<not> is_build_of i e"
  shows "killed_once i (handle_event f r now e s)"
proof (cases e)
  case (Build j data)
  then show ?thesis using assms by (auto simp: killed_once_def Compiler_build_def split: option.splits)
next
  case (Child j ev)
  show ?thesis
  proof (cases "j = i")
    case True
    then show ?thesis using assms(1) Child
      by (auto simp: killed_once_def handle_child_finish finishBuild_own finishBuild_timer
               split: option.splits)
  next
    case False
    then show ?thesis using assms(1) Child
      by (auto simp: killed_once_def handle_child_finish finishBuild_other finishBuild_timer
               split: option.splits)
  qed
qed

lemma killed_once_run_service:
  assumes "killed_once i s" and "\<forall>(t, e) \<in> set evs. \<not> is_build_of i e"
  shows "killed_once i (run_service f r s evs T)"
  using assms
proof (induction evs arbitrary: s)
  case Nil
  then show ?case by (simp add: killed_once_fire_due)
next
  case (Cons p evs)
  obtain t e where p: "p = (t, e)" by (cases p)
  have nb: "\<not> is_build_of i e" using Cons.prems(2) p by auto
  have rest: "\<forall>(t, e) \<in> set evs. \<not> is_build_of i e" using Cons.prems(2) by auto
  have "killed_once i (handle_event f r t e (fire_due t s))"
    by (rule killed_once_handle_event [OF killed_once_fire_due [OF Cons.prems(1)] nb])
  from Cons.IH [OF this rest] show ?case
    using p Cons.prems(1) by (simp add: killed_once_fire_due)
qed

lemma kills_at_most_once:
  assumes "\<forall>(t, e) \<in> set evs. \<not> is_build_of i e"
  shows "length (kills_of (run_service f r (Compiler_build i d t0 s) evs T) i) \<le> 1"
proof -
  have "killed_once i (Compiler_build i d t0 s)"
    by (simp add: killed_once_def Compiler_build_def)
  from killed_once_run_service [OF this assms, of f r T] show ?thesis
    by (auto simp: killed_once_def kills_of_def split: option.splits)
qed

lemma unresolved_step:
  assumes "unresolved i d deadline s" and "t < deadline" and "\<not> concerns i e"
  shows "unresolved i d deadline (handle_event f r t e (fire_due t s))"
proof -
  have pre: "case watchdogTimer s of None \<Rightarrow> True | Some (t', j) \<Rightarrow> j \<noteq> i \<or> t < t'"
    using assms(1,2) by (auto simp: unresolved_def split: option.splits)
  note fr = fire_due_frame [OF pre]
  have u1: "unresolved i d deadline (fire_due t s)"
    using fr assms(1) by (auto simp: unresolved_def split: option.splits)
  have nb: "\<not> is_build_of i e" using assms(3) by (cases e) auto
  show ?thesis
    using u1 handle_event_other [OF assms(3), of f r t "fire_due t s"]
      handle_event_timer_other [OF nb, where f = f and r = r and now = t and s = "fire_due t s"]
    by (auto simp: unresolved_def split: option.splits)
qed

lemma first_event_resolves:
  assumes "unresolved i d deadline s"
    and "\<forall>(t', e') \<in> set pre. t' \<le> T \<and> t' < deadline \<and> \<not> concerns i e'"
    and "t \<le> T" and "t < deadline"
    and "\<forall>(t', e') \<in> set post. \<not> is_build_of i e'"
  shows "builds (run_service f r s (pre @ (t, Child i ev) # post) T) i =
           Some (resolved d [] (terminal_error (f i) (r i) ev))"
  using assms(1,2)
proof (induction pre arbitrary: s)
  case Nil
  have pre: "case watchdogTimer s of None \<Rightarrow> True | Some (t', j) \<Rightarrow> j \<noteq> i \<or> t < t'"
    using Nil.prems(1) assms(4) by (auto simp: unresolved_def split: option.splits)
  note fr = fire_due_frame [OF pre]
  let ?s1 = "fire_due t s"
  let ?s2 = "finishBuild i (terminal_error (f i) (r i) ev) ?s1"
  have b1: "builds ?s1 i = Some \<lparr>job = d, cbCalled = False, kills = [], cb_args = None\<rparr>"
    using fr Nil.prems(1) by (simp add: unresolved_def)
  have b2: "builds ?s2 i = Some (resolved d [] (terminal_error (f i) (r i) ev))"
    by (simp add: finishBuild_own [OF b1] resolved_def)
  have t2: "watchdogTimer ?s2 = None"
    using b1 by (simp add: finishBuild_timer)
  have "builds (run_service f r ?s2 post T) i = Some (resolved d [] (terminal_error (f i) (r i) ev))"
    by (rule run_service_latched [OF b2 _ _ assms(5)]) (simp_all add: resolved_def t2)
  then show ?case using assms(3) by (simp add: handle_child_finish)
next
  case (Cons p pre)
  obtain t' e' where p: "p = (t', e')" by (cases p)
  have h: "t' \<le> T" "t' < deadline" "\<not> concerns i e'" using Cons.prems(2) p by auto
  have rest: "\<forall>(t', e') \<in> set pre. t' \<le> T \<and> t' < deadline \<and> \<not> concerns i e'"
    using Cons.prems(2) by auto
  from Cons.IH [OF unresolved_step [OF Cons.prems(1) h(2,3)] rest]
  show ?case using p h(1) by simp
qed

lemma unresolved_after_build:
  "unresolved i d (t0 + COMPILER_WATCHDOG_INTERVAL) (Compiler_build i d t0 s)"
  by (simp add: unresolved_def Compiler_build_def)

lemma slice_last_length: "length (slice_last n s) \<le> n"
  by (simp add: slice_last_def)

lemma slice_last_suffix: "\<exists>u. s = u @ slice_last n s"
  unfolding slice_last_def by (metis append_take_drop_id)

text \<open>
  C2. The claim: every spawned build child that has neither delivered its terminal IPC
  message nor exited within 2,700,000 ms of its spawn is killed with SIGKILL and its build
  resolves with the error \<^verbatim>\<open>{message: "Compilation took too long, killing...",
  msgPublic: "The compilation exceed the designated time."}\<close>, which becomes the job's
  notification. What the code does: job A1 is built at 0 ms and its child reports success
  at 1,000 ms; the loop builds job B2 at 6,000 ms; the \<^verbatim>\<open>"exit"\<close> event of the first child
  is handled at 6,001 ms, and its \<^verbatim>\<open>finishBuild\<close> clears \<^verbatim>\<open>this._watchdogTimer\<close>, which by
  then is the timer of the second build. The child of B2 delivers nothing and does not
  exit; at 2,706,000 ms it has not been killed, its build has not called back and there
  is no notification, and no timer is armed any more. (Without the late \<^verbatim>\<open>"exit"\<close> it is
  killed at that time.) The same happens to a running child when \<^verbatim>\<open>build\<close> is called
  again, which clears the timer before it arms its own: the child of A1 below is not
  killed at 2,700,000 ms.
\<close>

theorem watchdog_disarmed_for_running_child:
  "kills_of (run_service no_logs no_redaction compiler_idle
      [(0, Build 0 job_A1), (1000, Child 0 (Message None)), (6000, Build 1 job_B2),
       (6001, Child 0 (Exit (Some 0) None))] 2706000) 1 = [] \<and>
   cb_of (run_service no_logs no_redaction compiler_idle
      [(0, Build 0 job_A1), (1000, Child 0 (Message None)), (6000, Build 1 job_B2),
       (6001, Child 0 (Exit (Some 0) None))] 2706000) 1 = None \<and>
   compiler_loop_callback True (cb_of (run_service no_logs no_redaction compiler_idle
      [(0, Build 0 job_A1), (1000, Child 0 (Message None)), (6000, Build 1 job_B2),
       (6001, Child 0 (Exit (Some 0) None))] 2706000) 1) = [] \<and>
   watchdogTimer (run_service no_logs no_redaction compiler_idle
      [(0, Build 0 job_A1), (1000, Child 0 (Message None)), (6000, Build 1 job_B2),
       (6001, Child 0 (Exit (Some 0) None))] 2706000) = None \<and>
   kills_of (run_service no_logs no_redaction compiler_idle
      [(0, Build 0 job_A1), (1000, Child 0 (Message None)), (6000, Build 1 job_B2)] 2706000) 1
     = [''SIGKILL''] \<and>
   kills_of (run_service no_logs no_redaction compiler_idle
      [(0, Build 0 job_A1), (10000, Build 1 job_B2), (20000, Child 1 (Message None))] 2700000) 0 = [] \<and>
   cb_of (run_service no_logs no_redaction compiler_idle
      [(0, Build 0 job_A1), (10000, Build 1 job_B2), (20000, Child 1 (Message None))] 2700000) 0 = None"
  by (simp add: fire_due.simps compiler_idle_def Compiler_build_def COMPILER_WATCHDOG_INTERVAL_def
        on_message_def on_exit_def on_watchdog_def finishBuild_def kills_of_def cb_of_def
        compiler_loop_callback_def)

text \<open>
  In both runs the child is never killed and its build never calls back, however long the
  service is observed.
\<close>

lemma late_exit_leaves_child_unwatched:
  assumes "6001 \<le> T"
  shows "kills_of (run_service f r compiler_idle
      [(0, Build 0 a), (1000, Child 0 (Message None)), (6000, Build 1 b),
       (6001, Child 0 (Exit (Some 0) None))] T) 1 = [] \<and>
   cb_of (run_service f r compiler_idle
      [(0, Build 0 a), (1000, Child 0 (Message None)), (6000, Build 1 b),
       (6001, Child 0 (Exit (Some 0) None))] T) 1 = None"
proof -
  have T: "0 \<le> T" "1000 \<le> T" "6000 \<le> T" using assms by simp_all
  show ?thesis
    using assms T
    by (simp add: fire_due.simps compiler_idle_def Compiler_build_def COMPILER_WATCHDOG_INTERVAL_def
        on_message_def on_exit_def finishBuild_def kills_of_def cb_of_def)
qed


lemma second_build_leaves_child_unwatched:
  assumes "20000 \<le> T"
  shows "kills_of (run_service f r compiler_idle
      [(0, Build 0 a), (10000, Build 1 b), (20000, Child 1 (Message None))] T) 0 = [] \<and>
   cb_of (run_service f r compiler_idle
      [(0, Build 0 a), (10000, Build 1 b), (20000, Child 1 (Message None))] T) 0 = None"
proof -
  have T: "0 \<le> T" "10000 \<le> T" using assms by simp_all
  show ?thesis
    using assms T
    by (simp add: fire_due.simps compiler_idle_def Compiler_build_def COMPILER_WATCHDOG_INTERVAL_def
        on_message_def on_exit_def finishBuild_def kills_of_def cb_of_def)
qed

text \<open>
  What the watchdog does achieve: when the service handles nothing from the call of
  \<^verbatim>\<open>build\<close> until 2,700,000 ms later (no event of any child, no other call of
  \<^verbatim>\<open>build\<close>), the child is killed with SIGKILL, the build resolves with the fixed error
  and the loop's final callback turns it into the notification of the job. And on every
  run in which the number of the build is not used again, the watchdog kills its child at
  most once.
\<close>

lemma watchdog_kills_untouched_build:
  assumes "\<forall>(t, e) \<in> set evs. t0 + COMPILER_WATCHDOG_INTERVAL < t \<and> \<not> is_build_of i e"
    and "t0 + COMPILER_WATCHDOG_INTERVAL \<le> T"
    and "\<forall>(t, e) \<in> set evs'. \<not> is_build_of i e"
  shows "COMPILER_WATCHDOG_INTERVAL = 2700000 \<and>
         kills_of (run_service f r (Compiler_build i d t0 s) evs T) i = [''SIGKILL''] \<and>
         cb_of (run_service f r (Compiler_build i d t0 s) evs T) i =
           Some (Some \<lparr>message = Some ''Compilation took too long, killing...'',
                       msgPublic = Some ''The compilation exceed the designated time.''\<rparr>, d) \<and>
         compiler_loop_callback True (cb_of (run_service f r (Compiler_build i d t0 s) evs T) i) =
           [\<lparr>n_platform = platform_name d, n_code = code d, n_starttime = starttime d,
             msg_internal = Some ''Compilation took too long, killing...'',
             msg_public = Some ''The compilation exceed the designated time.''\<rparr>] \<and>
         length (kills_of (run_service f r (Compiler_build i d t0 s) evs' T') i) \<le> 1"
proof -
  note fired = run_service_watchdog [OF assms(1,2), of f r d s]
  note once = kills_at_most_once [OF assms(3), of f r d t0 s T']
  show ?thesis
    using once
    by (simp add: fired kills_of_def cb_of_def resolved_def BuilderError_def compiler_loop_callback_def
          notification_of_def COMPILER_WATCHDOG_INTERVAL_def)
qed


text \<open>
  C3 (as amended). When the first event that the service handles for a build is the
  terminal IPC message of its child, that message is an error object with a non-empty
  \<^verbatim>\<open>msgPublic\<close> and it arrives before the watchdog (whatever the service handles for other
  builds in the meantime), the notification's public message is
  \<^verbatim>\<open>"COMPILER ERROR: \n\n"\<close>, the redacted \<^verbatim>\<open>msgPublic\<close>, \<^verbatim>\<open>"\n\nCORDOVA LOG: \n\n"\<close>
  and then the last 10,000 characters (at most) of the redacted \<^verbatim>\<open>cordova.log\<close>, or of
  "No log available" when the file does not exist.
\<close>

theorem cordova_log_tail_on_ipc_error:
  assumes "\<forall>(t', e') \<in> set pre. t' \<le> T \<and> t' < t0 + COMPILER_WATCHDOG_INTERVAL \<and> \<not> concerns i e'"
    and "t < t0 + COMPILER_WATCHDOG_INTERVAL" and "t \<le> T" and "truthy (msgPublic e)"
    and "\<forall>(t', e') \<in> set post. \<not> is_build_of i e'"
  shows "map msg_public (compiler_loop_callback True
           (cb_of (run_service f r (Compiler_build i d t0 s)
                     (pre @ (t, Child i (Message (Some e))) # post) T) i)) =
         [Some (''COMPILER ERROR: '' @ nl @ nl @ r i (the (msgPublic e)) @ nl @ nl @ ''CORDOVA LOG: ''
                @ nl @ nl @ slice_last 10000 (read_cordova_log (f i) (r i)))] \<and>
         length (slice_last 10000 (read_cordova_log (f i) (r i))) \<le> 10000 \<and>
         (\<exists>u. read_cordova_log (f i) (r i) = u @ slice_last 10000 (read_cordova_log (f i) (r i)))"
proof -
  note res = first_event_resolves [OF unresolved_after_build assms(1,3,2,5),
      of f r d s "Message (Some e)"]
  show ?thesis
    using assms(4) slice_last_suffix [of "read_cordova_log (f i) (r i)" 10000]
    by (simp add: res cb_of_def resolved_def compiler_loop_callback_def notification_of_def
          slice_last_length)
qed


theorem cordova_log_tail_on_ipc_error_witness:
  "map msg_public (compiler_loop_callback True
     (cb_of (run_service failed_logs no_redaction (Compiler_build 0 job_A1 0 compiler_idle)
        [(3, Build 1 job_B2),
         (5, Child 0 (Message (Some (BuilderError ''gradle exit 1'' ''Internal compiler error (code 0200)''))))]
        10) 0)) =
   [Some (''COMPILER ERROR: '' @ nl @ nl @ ''Internal compiler error (code 0200)'' @ nl @ nl
          @ ''CORDOVA LOG: '' @ nl @ nl @ ''BUILD FAILED'')]"
  using cordova_log_tail_on_ipc_error [of "[(3, Build 1 job_B2)]" 10 0 0 5
      "BuilderError ''gradle exit 1'' ''Internal compiler error (code 0200)''" "[]"
      failed_logs no_redaction job_A1 compiler_idle]
  by (simp add: COMPILER_WATCHDOG_INTERVAL_def BuilderError_def read_cordova_log_def slice_last_def
        failed_logs_def no_redaction_def)

text \<open>
  The errors that the Builder synthesises itself carry no part of \<^verbatim>\<open>cordova.log\<close>: after a
  non-zero exit without a message, and after an \<^verbatim>\<open>"error"\<close> event of the child, the
  notification has no public message at all, and after the watchdog it has the fixed text
  only, although \<^verbatim>\<open>cordova.log\<close> exists.
\<close>

theorem cordova_log_missing_on_synthesised_errors:
  "map msg_public (compiler_loop_callback True
     (cb_of (run_service failed_logs no_redaction (Compiler_build 0 job_A1 0 compiler_idle)
        [(5, Child 0 (Exit (Some 1) None))] 10) 0)) = [None] \<and>
   map msg_internal (compiler_loop_callback True
     (cb_of (run_service failed_logs no_redaction (Compiler_build 0 job_A1 0 compiler_idle)
        [(5, Child 0 (Exit (Some 1) None))] 10) 0)) = [Some ''Process exited abnormally (null): 1''] \<and>
   map msg_public (compiler_loop_callback True
     (cb_of (run_service failed_logs no_redaction (Compiler_build 0 job_A1 0 compiler_idle)
        [(5, Child 0 (ChildError (Error ''spawn ENOMEM'')))] 10) 0)) = [None] \<and>
   map msg_public (compiler_loop_callback True
     (cb_of (run_service failed_logs no_redaction (Compiler_build 0 job_A1 0 compiler_idle)
        [] 2700000) 0)) = [Some ''The compilation exceed the designated time.'']"
  by (simp add: fire_due.simps Compiler_build_def compiler_idle_def COMPILER_WATCHDOG_INTERVAL_def
        on_exit_def on_error_def finishBuild_def on_watchdog_def compiler_loop_callback_def
        notification_of_def Error_def BuilderError_def number_text_def digit_char_def cb_of_def)

text \<open>
  That holds of every such run: the public message after a non-zero exit is absent, after
  an \<^verbatim>\<open>"error"\<close> event it is the \<^verbatim>\<open>msgPublic\<close> of the error that Node reports (a plain
  \<^verbatim>\<open>Error\<close> has none), and after the watchdog it is the fixed text.
\<close>

lemma synthesised_errors_carry_no_log:
  assumes "\<forall>(t', e') \<in> set pre. t' \<le> T \<and> t' < t0 + COMPILER_WATCHDOG_INTERVAL \<and> \<not> concerns i e'"
    and "t < t0 + COMPILER_WATCHDOG_INTERVAL" and "t \<le> T"
    and "\<forall>(t', e') \<in> set post. \<not> is_build_of i e'"
  shows "c \<noteq> Some 0 \<Longrightarrow>
         map msg_public (compiler_loop_callback True
           (cb_of (run_service f r (Compiler_build i d t0 s)
                     (pre @ (t, Child i (Exit c signal)) # post) T) i)) = [None]"
    and "map msg_public (compiler_loop_callback True
           (cb_of (run_service f r (Compiler_build i d t0 s)
                     (pre @ (t, Child i (ChildError err)) # post) T) i)) = [msgPublic err]"
proof -
  note res = first_event_resolves [OF unresolved_after_build assms(1,3,2,4), of f r d s]
  show "c \<noteq> Some 0 \<Longrightarrow>
         map msg_public (compiler_loop_callback True
           (cb_of (run_service f r (Compiler_build i d t0 s)
                     (pre @ (t, Child i (Exit c signal)) # post) T) i)) = [None]"
    by (simp add: res cb_of_def resolved_def compiler_loop_callback_def notification_of_def Error_def)
  show "map msg_public (compiler_loop_callback True
           (cb_of (run_service f r (Compiler_build i d t0 s)
                     (pre @ (t, Child i (ChildError err)) # post) T) i)) = [msgPublic err]"
    by (simp add: res cb_of_def resolved_def compiler_loop_callback_def notification_of_def)
qed


lemma watchdog_error_carries_no_log:
  assumes "\<forall>(t, e) \<in> set evs. t0 + COMPILER_WATCHDOG_INTERVAL < t \<and> \<not> is_build_of i e"
    and "t0 + COMPILER_WATCHDOG_INTERVAL \<le> T"
  shows "map msg_public (compiler_loop_callback True
           (cb_of (run_service f r (Compiler_build i d t0 s) evs T) i)) =
         [Some ''The compilation exceed the designated time.'']"
  by (simp add: run_service_watchdog [OF assms] cb_of_def resolved_def compiler_loop_callback_def
        notification_of_def BuilderError_def)


text \<open>
  An error message of the child without a public part gets the whole redacted log, not its
  last 10,000 characters.
\<close>

lemma cordova_log_unsliced_without_msgPublic:
  assumes "\<forall>(t', e') \<in> set pre. t' \<le> T \<and> t' < t0 + COMPILER_WATCHDOG_INTERVAL \<and> \<not> concerns i e'"
    and "t < t0 + COMPILER_WATCHDOG_INTERVAL" and "t \<le> T" and "\<not> truthy (msgPublic e)"
    and "\<forall>(t', e') \<in> set post. \<not> is_build_of i e'"
  shows "map msg_public (compiler_loop_callback True
           (cb_of (run_service f r (Compiler_build i d t0 s)
                     (pre @ (t, Child i (Message (Some e))) # post) T) i)) =
         [Some (''CORDOVA LOG: '' @ nl @ nl @ read_cordova_log (f i) (r i))]"
proof -
  note res = first_event_resolves [OF unresolved_after_build assms(1,3,2,5),
      of f r d s "Message (Some e)"]
  show ?thesis
    using assms(4)
    by (simp add: res cb_of_def resolved_def compiler_loop_callback_def notification_of_def)
qed


subsection \<open>The Notifier\<close>

text \<open>
  C4 (as amended). For every message dequeued with \<open>tries > 20\<close> the Notifier issues the
  ack and posts nothing to the backend; it then cleans the job's workspace directory
  exactly when that ack succeeded and the environment is not DEVELOP.
\<close>

theorem notifier_discards_after_max_retries:
  assumes "tries msg > 20"
  shows "QueueAck (ack msg) \<in> set (Notifier_loop env projects False (Dequeued msg) ack_ok posted) \<and>
         (\<forall>url. HttpPost url \<notin> set (Notifier_loop env projects False (Dequeued msg) ack_ok posted)) \<and>
         (RemoveDir (workspace_dir projects (payload msg))
            \<in> set (Notifier_loop env projects False (Dequeued msg) ack_ok posted)
          \<longleftrightarrow> ack_ok \<and> env \<noteq> DEVELOP)"
  using assms by (auto simp: Notifier_loop_def MAX_RETRIES_NUMBER_def clean_def)

theorem notifier_discards_after_max_retries_witness:
  "tries \<lparr>ack = ''tok'', payload = note_A1, tries = 21\<rparr> > 20 \<and>
   Notifier_loop PRODUCTION ''/home/u/projects'' False
     (Dequeued \<lparr>ack = ''tok'', payload = note_A1, tries = 21\<rparr>) True (Response 500) =
   [Working True, QueueAck ''tok'', Working False, RemoveDir (workspace_dir ''/home/u/projects'' note_A1)]"
  using notifier_discards_after_max_retries
    [of "\<lparr>ack = ''tok'', payload = note_A1, tries = 21\<rparr>" PRODUCTION "''/home/u/projects''" True "Response 500"]
  by (simp add: Notifier_loop_def MAX_RETRIES_NUMBER_def clean_def)

text \<open>
  When the ack of a message with too many tries fails, the callback returns before
  \<^verbatim>\<open>clean\<close>: the workspace stays, also outside DEVELOP.
\<close>

theorem notifier_discard_ack_failure_keeps_workspace:
  "Notifier_loop PRODUCTION ''/home/u/projects'' False
     (Dequeued \<lparr>ack = ''tok'', payload = note_A1, tries = 21\<rparr>) False (Response 200) =
   [Working True, QueueAck ''tok'', Working False]"
  by (simp add: Notifier_loop_def MAX_RETRIES_NUMBER_def clean_def)

text \<open>
  C5 (as amended). Outside DEVELOP, for every dequeued notification with \<open>tries \<le> 20\<close> and
  a non-empty code, the Notifier posts the result, issues the ack if and only if the POST
  completes with a status code in [200, 400), and removes the job workspace directory if
  and only if, in addition, that ack succeeds. On a transport error or any other status
  the message is not acked and the workspace is left in place.
\<close>

theorem notifier_ack_iff_post_ok:
  assumes "tries msg \<le> 20" and "n_code (payload msg) \<noteq> []" and "env \<noteq> DEVELOP"
  shows "HttpPost (''https://'' @ envToHost env @ ''/api/v1/compilation/'' @ n_code (payload msg))
           \<in> set (Notifier_loop env projects False (Dequeued msg) ack_ok posted) \<and>
         (QueueAck (ack msg) \<in> set (Notifier_loop env projects False (Dequeued msg) ack_ok posted)
          \<longleftrightarrow> (\<exists>sc. posted = Response sc \<and> 200 \<le> sc \<and> sc < 400)) \<and>
         (RemoveDir (workspace_dir projects (payload msg))
            \<in> set (Notifier_loop env projects False (Dequeued msg) ack_ok posted)
          \<longleftrightarrow> (\<exists>sc. posted = Response sc \<and> 200 \<le> sc \<and> sc < 400) \<and> ack_ok)"
  using assms
  by (auto simp: Notifier_loop_def MAX_RETRIES_NUMBER_def clean_def send_def status_ok_def
           split: post_result.splits)

theorem notifier_ack_iff_post_ok_witness:
  "tries \<lparr>ack = ''tok'', payload = note_A1, tries = 3\<rparr> \<le> 20 \<and> n_code note_A1 \<noteq> [] \<and> PRODUCTION \<noteq> DEVELOP \<and>
   Notifier_loop PRODUCTION ''/home/u/projects'' False
     (Dequeued \<lparr>ack = ''tok'', payload = note_A1, tries = 3\<rparr>) True (Response 200) =
   [Working True, QueuePing ''tok'', HttpPost ''https://admin.cocoon.io/api/v1/compilation/A1'',
    QueueAck ''tok'', Working False, QueueClean, RemoveDir (workspace_dir ''/home/u/projects'' note_A1)] \<and>
   Notifier_loop PRODUCTION ''/home/u/projects'' False
     (Dequeued \<lparr>ack = ''tok'', payload = note_A1, tries = 3\<rparr>) True (Response 500) =
   [Working True, QueuePing ''tok'', HttpPost ''https://admin.cocoon.io/api/v1/compilation/A1'',
    Working False]"
  using notifier_ack_iff_post_ok
    [of "\<lparr>ack = ''tok'', payload = note_A1, tries = 3\<rparr>" PRODUCTION "''/home/u/projects''" True "Response 200"]
  by (simp add: Notifier_loop_def MAX_RETRIES_NUMBER_def clean_def send_def status_ok_def note_A1_def workspace_dir_def)

text \<open>
  A POST answered with 200 followed by a failing ack leaves the workspace in place; and in
  DEVELOP the message is acked although nothing is posted.
\<close>

theorem notifier_ack_without_post_or_removal:
  "Notifier_loop PRODUCTION ''/home/u/projects'' False
     (Dequeued \<lparr>ack = ''tok'', payload = note_A1, tries = 3\<rparr>) False (Response 200) =
   [Working True, QueuePing ''tok'', HttpPost ''https://admin.cocoon.io/api/v1/compilation/A1'',
    QueueAck ''tok'', Working False] \<and>
   Notifier_loop DEVELOP ''/home/u/projects'' False
     (Dequeued \<lparr>ack = ''tok'', payload = note_A1, tries = 3\<rparr>) True TransportError =
   [Working True, QueuePing ''tok'', QueueAck ''tok'', Working False, QueueClean]"
  by (simp add: Notifier_loop_def MAX_RETRIES_NUMBER_def clean_def send_def status_ok_def note_A1_def)

text \<open>
  In DEVELOP that holds of every message with \<open>tries \<le> 20\<close> and a non-empty code: nothing
  is posted, the message is acked whatever the backend would have answered, and no
  directory is removed.
\<close>

lemma notifier_develop_acks_without_post:
  assumes "tries msg \<le> 20" and "n_code (payload msg) \<noteq> []"
  shows "Notifier_loop DEVELOP projects False (Dequeued msg) ack_ok posted =
           Working True # QueuePing (ack msg) # QueueAck (ack msg) #
             (if ack_ok then [Working False, QueueClean] else [Working False])"
  using assms by (simp add: Notifier_loop_def MAX_RETRIES_NUMBER_def clean_def send_def)

subsection \<open>The Updater\<close>

lemma getSyncStatus_unknown_key:
  "Key contentData \<notin> Key ` set items \<Longrightarrow> getSyncStatus dp present items contentData = Inr IGNORE"
  by (induction items) auto

lemma syncObject_unknown_key:
  "s3_structure c = Structure items \<Longrightarrow> Key contentData \<notin> Key ` set items \<Longrightarrow>
   syncObject w c contentData = IGNORE"
  by (simp add: syncObject_def getSyncStatus_unknown_key)

text \<open>
  C1. The claim: an entry of the new listing whose key is not in the persisted manifest is
  classified DOWNLOAD, fetched and extracted in the same iteration. What the code does at
  the manifest \<^verbatim>\<open>[plugins/Y.tar.bz2]\<close> and the listing \<^verbatim>\<open>[plugins/X.tar.bz2]\<close>:
  \<^verbatim>\<open>getSyncStatus\<close> finds no item with the key and returns its initial \<^verbatim>\<open>IGNORE\<close>,
  nothing is fetched, the iteration completes without error, \<^verbatim>\<open>data/plugins/X\<close> does
  not exist afterwards, and the manifest that is saved lists the key all the same.
\<close>

theorem updater_new_key_not_downloaded:
  "s3_structure cache_Y = Structure [plugin_Y] \<and>
   purgedContents ''linux'' [plugin_X] = Inr [plugin_X] \<and>
   syncObject (linux_world [plugin_X]) cache_Y plugin_X = IGNORE \<and>
   ended (Updater_loop (linux_world [plugin_X]) cache_Y) = Completed None \<and>
   fetched_keys (Updater_loop (linux_world [plugin_X]) cache_Y) = [] \<and>
   dirs (cache_after (Updater_loop (linux_world [plugin_X]) cache_Y))
     ''/home/u/opt/cocoon_compiler/workspace/testing/data/plugins/X'' = None \<and>
   s3_structure (cache_after (Updater_loop (linux_world [plugin_X]) cache_Y)) = Structure [plugin_X]"
  by code_simp

text \<open>
  The next iteration finds the key in the manifest and its directory missing, and only
  then fetches the archive.
\<close>

lemma updater_new_key_downloaded_one_iteration_late:
  "fetched_keys (Updater_loop (linux_world [plugin_X])
      (cache_after (Updater_loop (linux_world [plugin_X]) cache_Y))) = [''plugins/X.tar.bz2''] \<and>
   dirs (cache_after (Updater_loop (linux_world [plugin_X])
      (cache_after (Updater_loop (linux_world [plugin_X]) cache_Y))))
     ''/home/u/opt/cocoon_compiler/workspace/testing/data/plugins/X''
     = Some (Extracted ''plugins/X.tar.bz2'' ''2018-08-21T10:00:00.000Z'')"
  by code_simp



















text \<open>
  Why the entries have to be proper: the output directory of the key
  \<^verbatim>\<open>plugins/...tar.bz2\<close> is the data directory itself. When such an archive is downloaded,
  \<^verbatim>\<open>emptyDirSync\<close> empties the data directory, \<^verbatim>\<open>ready.lock\<close> and the other archives'
  directories included, and after a failing extraction the file is gone. When such a key
  has left the bucket, \<^verbatim>\<open>purge\<close> removes the data directory, and the final callback throws
  where it opens \<^verbatim>\<open>ready.lock\<close>.
\<close>

lemma dotdot_dir:
  "getOutputDir ''/home/u/opt/cocoon_compiler/workspace/testing/data'' plugin_dotdot =
     Inr (Some ''/home/u/opt/cocoon_compiler/workspace/testing/data'')"
  by code_simp

lemma ready_lock_lost_to_dotdot_archive:
  "ready_lock cache_Y \<and>
   syncObject (broken_archive_world [plugin_dotdot, plugin_Y])
     (cache_Y\<lparr>s3_structure := NoFile\<rparr>) plugin_dotdot = DOWNLOAD \<and>
   ended (Updater_loop (broken_archive_world [plugin_dotdot, plugin_Y]) (cache_Y\<lparr>s3_structure := NoFile\<rparr>))
     = Completed (Some ''Command failed'') \<and>
   \<not> ready_lock (cache_after (Updater_loop (broken_archive_world [plugin_dotdot, plugin_Y])
                     (cache_Y\<lparr>s3_structure := NoFile\<rparr>))) \<and>
   dirs (cache_after (Updater_loop (broken_archive_world [plugin_dotdot, plugin_Y])
                     (cache_Y\<lparr>s3_structure := NoFile\<rparr>)))
     ''/home/u/opt/cocoon_compiler/workspace/testing/data/plugins/Y'' = None"
  by code_simp

lemma ready_lock_not_opened_after_dotdot_purge:
  "ended (Updater_loop (linux_world [plugin_Y]) (cache_Y\<lparr>s3_structure := Structure [plugin_dotdot, plugin_Y]\<rparr>))
     = LockThrew \<and>
   \<not> lock_touched (Updater_loop (linux_world [plugin_Y])
                     (cache_Y\<lparr>s3_structure := Structure [plugin_dotdot, plugin_Y]\<rparr>)) \<and>
   \<not> ready_lock (cache_after (Updater_loop (linux_world [plugin_Y])
                     (cache_Y\<lparr>s3_structure := Structure [plugin_dotdot, plugin_Y]\<rparr>))) \<and>
   s3_structure (cache_after (Updater_loop (linux_world [plugin_Y])
                     (cache_Y\<lparr>s3_structure := Structure [plugin_dotdot, plugin_Y]\<rparr>))) = Structure [plugin_Y]"
  by code_simp


subsection \<open>The platform builders\<close>

text \<open>
  C7. The claim: a Windows job whose project name is longer than 40 characters is rejected
  in the build stage with the public message about the name, and a name of exactly 40
  characters passes. What the code does at a name of 41 characters and at one of 40: the
  check \<^verbatim>\<open>cfg.name().length()\<close> raises a \<^verbatim>\<open>TypeError\<close> before the comparison with 40, so
  \<^verbatim>\<open>build\<close> neither calls back with the public message nor schedules any task.
\<close>

theorem windows_name_check_throws:
  "WindowsBuilder_build (replicate 41 (CHR ''a'')) project key ok = Throws TypeError \<and>
   WindowsBuilder_build (replicate 40 (CHR ''a'')) project key ok = Throws TypeError"
  by (simp add: WindowsBuilder_build_def js_call_number_def)

text \<open>The same holds whatever the name is.\<close>

lemma windows_build_always_throws:
  "WindowsBuilder_build cfg_name project key ok = Throws TypeError"
  by (simp add: WindowsBuilder_build_def js_call_number_def)

lemma suffix_of_ending: "suffix (a @ b) p \<Longrightarrow> suffix b p"
  by (auto simp: suffix_def)

lemma filterFn_signed_release_only:
  assumes "filterFn True p"
  shows "suffix ''-release.apk'' p"
proof -
  from assms obtain e where e: "e \<in> set (apk_endings True)" "suffix e p"
    by (auto simp: filterFn_def list_ex_iff)
  from e(1) obtain a where "e = a @ ''-release.apk''"
    by (auto simp: apk_endings_def)
  with e(2) show ?thesis by (auto dest: suffix_of_ending)
qed

lemma filterFn_ending:
  "e \<in> set (apk_endings key) \<Longrightarrow> filterFn key (dir @ e)"
  by (auto simp: filterFn_def list_ex_iff suffix_def)

lemma filterFn_unsigned_accepts:
  "filterFn False (dir @ ''/app-debug.apk'')" "filterFn False (dir @ ''/app-release-unsigned.apk'')"
  by (rule filterFn_ending, simp add: apk_endings_def)+

lemma waterfall_two_compiles:
  "ok 0 \<Longrightarrow> fst (waterfall ok 0 [Compile a, Compile b]) = [a, b]"
  by (simp add: Let_def)

text \<open>
  C8 (as amended). For an Android job without a signing key the build stage schedules two
  native builds, debug first and release second, and invokes both when the licence step
  and the debug build succeed; for a job with a signing key it schedules one, release with
  the signing \<^verbatim>\<open>build.json\<close>, and invokes it when the licence step and the three signing
  tasks succeed. The pack stage zips exactly the files that pass the filter: without a key
  these include the debug and the release-unsigned APK, with a key only paths ending in
  \<^verbatim>\<open>-release.apk\<close>.
\<close>

theorem android_builds_and_pack:
  "(\<not> key \<and> licenses_ok \<and> ok 0 \<longrightarrow>
      AndroidBuilder_build licenses_ok project key ok =
         Ran [android_options project False False, android_options project False True] (ok 1)) \<and>
   (key \<and> licenses_ok \<and> ok 0 \<and> ok 1 \<and> ok 2 \<longrightarrow>
      AndroidBuilder_build licenses_ok project key ok = Ran [android_options project True True] (ok 3)) \<and>
   zipped (AndroidBuilder_pack key found) = filter (filterFn key) found \<and>
   filterFn False (dir @ ''/app-debug.apk'') \<and>
   filterFn False (dir @ ''/app-release-unsigned.apk'') \<and>
   (\<forall>p \<in> set (zipped (AndroidBuilder_pack True found)). suffix ''-release.apk'' p)"
proof -
  have unsigned: "\<not> key \<and> licenses_ok \<and> ok 0 \<longrightarrow>
      AndroidBuilder_build licenses_ok project key ok =
         Ran [android_options project False False, android_options project False True] (ok 1)"
    by (auto simp: AndroidBuilder_build_def AndroidBuilder_tasks_def Let_def eval_nat_numeral)
  have signed: "key \<and> licenses_ok \<and> ok 0 \<and> ok 1 \<and> ok 2 \<longrightarrow>
      AndroidBuilder_build licenses_ok project key ok = Ran [android_options project True True] (ok 3)"
    by (auto simp: AndroidBuilder_build_def AndroidBuilder_tasks_def Let_def eval_nat_numeral)
  have zip: "zipped (AndroidBuilder_pack key found) = filter (filterFn key) found"
    by (simp add: AndroidBuilder_pack_def Let_def)
  have rel: "\<forall>p \<in> set (zipped (AndroidBuilder_pack True found)). suffix ''-release.apk'' p"
    by (simp add: AndroidBuilder_pack_def Let_def filterFn_signed_release_only)
  show ?thesis
    using unsigned signed zip rel filterFn_unsigned_accepts [of dir] by blast
qed

theorem android_builds_and_pack_witness:
  "AndroidBuilder_build True ''/p/workspace'' False (\<lambda>i. True) =
     Ran [android_options ''/p/workspace'' False False, android_options ''/p/workspace'' False True] True \<and>
   AndroidBuilder_build True ''/p/workspace'' True (\<lambda>i. True) =
     Ran [android_options ''/p/workspace'' True True] True \<and>
   zipped (AndroidBuilder_pack False
     [''/o/debug/app-debug.apk'', ''/o/debug/output.json'', ''/o/release/app-release-unsigned.apk'']) =
     [''/o/debug/app-debug.apk'', ''/o/release/app-release-unsigned.apk''] \<and>
   zipped (AndroidBuilder_pack True
     [''/o/debug/app-debug.apk'', ''/o/release/app-release-unsigned.apk'', ''/o/release/app-release.apk'']) =
     [''/o/release/app-release.apk'']"
proof -
  note unsigned = android_builds_and_pack [where key = False and licenses_ok = True and ok = "\<lambda>i. True"
        and project = "''/p/workspace''" and dir = "''/o/debug''"
        and found = "[''/o/debug/app-debug.apk'', ''/o/debug/output.json'', ''/o/release/app-release-unsigned.apk'']"]
  note signed = android_builds_and_pack [where key = True and licenses_ok = True and ok = "\<lambda>i. True"
        and project = "''/p/workspace''" and dir = "''/o/debug''"
        and found = "[''/o/debug/app-debug.apk'', ''/o/release/app-release-unsigned.apk'', ''/o/release/app-release.apk'']"]
  have u: "filter (filterFn False)
      [''/o/debug/app-debug.apk'', ''/o/debug/output.json'', ''/o/release/app-release-unsigned.apk'']
      = [''/o/debug/app-debug.apk'', ''/o/release/app-release-unsigned.apk'']"
    by code_simp
  have s: "filter (filterFn True)
      [''/o/debug/app-debug.apk'', ''/o/release/app-release-unsigned.apk'', ''/o/release/app-release.apk'']
      = [''/o/release/app-release.apk'']"
    by code_simp
  have b1: "AndroidBuilder_build True ''/p/workspace'' False (\<lambda>i. True) =
     Ran [android_options ''/p/workspace'' False False, android_options ''/p/workspace'' False True] True"
    using unsigned by blast
  have b2: "AndroidBuilder_build True ''/p/workspace'' True (\<lambda>i. True) =
     Ran [android_options ''/p/workspace'' True True] True"
    using signed by blast
  have z1: "zipped (AndroidBuilder_pack False
     [''/o/debug/app-debug.apk'', ''/o/debug/output.json'', ''/o/release/app-release-unsigned.apk'']) =
     [''/o/debug/app-debug.apk'', ''/o/release/app-release-unsigned.apk'']"
    using unsigned u by metis
  have z2: "zipped (AndroidBuilder_pack True
     [''/o/debug/app-debug.apk'', ''/o/release/app-release-unsigned.apk'', ''/o/release/app-release.apk'']) =
     [''/o/release/app-release.apk'']"
    using signed s by metis
  show ?thesis using b1 b2 z1 z2 by blast
qed

text \<open>
  A step that fails ends the series: with a failing debug build the native build is
  invoked once, with a failing licence step or keystore download not at all.
\<close>

theorem android_failed_step_fewer_builds:
  "AndroidBuilder_build True ''/p/workspace'' False (\<lambda>i. False) =
     Ran [android_options ''/p/workspace'' False False] False \<and>
   AndroidBuilder_build False ''/p/workspace'' False (\<lambda>i. True) = Throws ExecError \<and>
   AndroidBuilder_build True ''/p/workspace'' True (\<lambda>i. i \<noteq> 1) = Ran [] False"
  by (simp add: AndroidBuilder_build_def AndroidBuilder_tasks_def Let_def)

text \<open>
  That holds of every job: a failing licence step throws before anything is scheduled,
  without a key a failing debug build is the only native build invoked, and with a key a
  failing signing task means that none is invoked.
\<close>

lemma android_failing_step_ends_series:
  "AndroidBuilder_build False project key ok = Throws ExecError"
  "\<not> key \<Longrightarrow> \<not> ok 0 \<Longrightarrow>
     AndroidBuilder_build True project key ok = Ran [android_options project False False] False"
  "key \<Longrightarrow> \<not> (ok 0 \<and> ok 1 \<and> ok 2) \<Longrightarrow> AndroidBuilder_build True project key ok = Ran [] False"
  by (auto simp: AndroidBuilder_build_def AndroidBuilder_tasks_def Let_def eval_nat_numeral)

subsection \<open>The clean-up of temporary files\<close>

lemma removeTmpFiles_set:
  "set (removeTmpFiles win32 getuid names stat) =
     {v \<in> set names. \<exists>st. stat v = Some st \<and> isDirectory st \<and>
        (prefix ''npm-'' v \<or> prefix ''git'' v) \<and> (win32 \<or> uid st = getuid)}"
  by (auto simp: removeTmpFiles_def split: option.splits)

text \<open>
  C9 (as amended). The purge of temporary files (the directories of the temporary directory
  whose names begin with \<^verbatim>\<open>npm-\<close> or \<^verbatim>\<open>git\<close> and, on POSIX, belong to the current user,
  plus the package-manager cache) is triggered in the build child when the pipeline of a
  fetched job has ended, outside DEVELOP, whenever both disk checks succeed and the root or
  the home file system has less than 1 GiB or less than 25% free.
\<close>

theorem cleanup_after_pipeline_when_low:
  assumes "ready" and "\<not> working" and "fetched" and "env \<noteq> DEVELOP"
    and "available rootSpc < 1024 ^ 3 \<or> available rootSpc * 100 < total rootSpc * 25 \<or>
         available homeSpc < 1024 ^ 3 \<or> available homeSpc * 100 < total homeSpc * 25"
  shows "Compiler_loop_cleanup ready working fetched (Finished err) env (Space rootSpc) (Space homeSpc)
           win32 getuid names stat =
         [RemovedTmp (removeTmpFiles win32 getuid names stat), RemovedNpmCache] \<and>
         set (removeTmpFiles win32 getuid names stat) =
           {v \<in> set names. \<exists>st. stat v = Some st \<and> isDirectory st \<and>
              (prefix ''npm-'' v \<or> prefix ''git'' v) \<and> (win32 \<or> uid st = getuid)}"
proof -
  have "low_space rootSpc homeSpc"
    using assms(5) by (auto simp: low_space_def)
  then show ?thesis
    using assms(1-4)
    by (simp add: Compiler_loop_cleanup_def start_callback_def cleanUp_def removeTmpFiles_set)
qed

theorem cleanup_after_pipeline_when_low_witness:
  "PRODUCTION \<noteq> DEVELOP \<and> available full_root < 1024 ^ 3 \<and>
   Compiler_loop_cleanup True False True (Finished None) PRODUCTION (Space full_root) (Space roomy_home)
     False 1000 tmp_names tmp_stats = [RemovedTmp [''npm-1234'', ''git-abc''], RemovedNpmCache]"
proof -
  have r: "removeTmpFiles False 1000 tmp_names tmp_stats = [''npm-1234'', ''git-abc'']"
    by code_simp
  have a: "available full_root < 1024 ^ 3" by (simp add: full_root_def)
  show ?thesis
    using cleanup_after_pipeline_when_low [of True False True PRODUCTION full_root roomy_home None
        False 1000 tmp_names tmp_stats] a r
    by simp
qed

text \<open>
  In DEVELOP, and in an iteration of the Builder that fetches no job, nothing is purged
  however full the disks are; and a regular file called \<^verbatim>\<open>npm-file\<close> or a directory of
  another user survives the purge.
\<close>

theorem no_cleanup_in_develop_or_without_job:
  "Compiler_loop_cleanup True False True (Finished None) DEVELOP (Space full_root) (Space roomy_home)
     False 1000 tmp_names tmp_stats = [] \<and>
   Compiler_loop_cleanup True False False (Finished None) PRODUCTION (Space full_root) (Space roomy_home)
     False 1000 tmp_names tmp_stats = [] \<and>
   removeTmpFiles False 1000 tmp_names tmp_stats = [''npm-1234'', ''git-abc'']"
proof -
  have r: "removeTmpFiles False 1000 tmp_names tmp_stats = [''npm-1234'', ''git-abc'']"
    by code_simp
  show ?thesis
    by (simp add: r Compiler_loop_cleanup_def start_callback_def)
qed

text \<open>
  The exact condition in the code: the home file system counts as low below 10 GiB, and the
  percentage test is \<open>4 * available < total\<close>.
\<close>

lemma cleanup_exact_condition:
  "Compiler_loop_cleanup True False True (Finished err) env (Space rootSpc) (Space homeSpc)
     win32 getuid names stat \<noteq> [] \<longleftrightarrow>
   env \<noteq> DEVELOP \<and>
   (available rootSpc < 1024 ^ 3 \<or> 4 * available rootSpc < total rootSpc \<or>
    available homeSpc < 10 * 1024 ^ 3 \<or> 4 * available homeSpc < total homeSpc)"
  by (auto simp: Compiler_loop_cleanup_def start_callback_def cleanUp_def low_space_def)

subsection \<open>The launcher\<close>

text \<open>
  C10. A build child launched over the IPC channel whose pipeline reaches a terminal
  state exits with code 0, on success and on structured failure alike, and sends exactly
  one IPC message, which alone carries the failure. A non-zero exit code (or an abnormal
  end) of such a child therefore comes from a crash or kill inside the pipeline or from a
  launcher error before the pipeline, never from a structured build error.
\<close>

theorem launcher_exit_code_zero:
  "(pipeline_started e j \<longrightarrow>
      ending (builder_launcher True e j (Finished r)) = ProcessExit 0 \<and>
      sent (builder_launcher True e j (Finished r)) =
        [case r of None \<Rightarrow> IpcNull | Some err \<Rightarrow> IpcError err]) \<and>
   (ending (builder_launcher True e j q) \<noteq> ProcessExit 0 \<longrightarrow>
      \<not> pipeline_started e j \<or> q = Died)"
  by (auto simp: builder_launcher_def pipeline_started_def
           split: pipeline_end.splits option.splits json_option.splits)

theorem launcher_exit_code_zero_witness:
  "pipeline_started True (Job ''android'') \<and>
   ending (builder_launcher True True (Job ''android'')
     (Finished (Some (BuilderError ''boom'' ''Internal compiler error (code 0200)'')))) = ProcessExit 0 \<and>
   sent (builder_launcher True True (Job ''android'')
     (Finished (Some (BuilderError ''boom'' ''Internal compiler error (code 0200)'')))) =
     [IpcError (BuilderError ''boom'' ''Internal compiler error (code 0200)'')] \<and>
   ending (builder_launcher True True NoJson (Finished None)) \<noteq> ProcessExit 0 \<and>
   \<not> pipeline_started True NoJson"
  using launcher_exit_code_zero [of True "Job ''android''"
      "Some (BuilderError ''boom'' ''Internal compiler error (code 0200)'')" Died]
    launcher_exit_code_zero [of True NoJson None "Finished None"]
  by (simp add: pipeline_started_def known_platform_def builder_launcher_def)

end
